theory Spec2Isabelle
  imports Main "HOL-Library.Word"
begin

section \<open>Data model\<close>

type_synonym byte = "8 word"
type_synonym bytes = "byte list"

text \<open>\<open>common.Hash\<close> (32 bytes) and \<open>common.Address\<close> (20 bytes) are byte arrays.\<close>

type_synonym hash = bytes
type_synonym address = bytes

text \<open>
  A Go \<open>error\<close> carries a message; a run-time panic (nil dereference, index out of
  range) is a separate outcome.
\<close>

datatype error = Err string | Panic string

text \<open>
  \<open>etypes.Receipt\<close>, with the fields the application reads or sets
  (\<open>makePublicPayloadHashReceipt\<close>, \<open>SaveReceipts\<close>).
\<close>

record Receipt =
  TxHash :: hash
  GasUsed :: "64 word"
  Status :: "64 word"

text \<open>The key-value store \<open>ethdb.Database\<close>, and a write batch on it.\<close>

type_synonym database = "bytes \<rightharpoonup> bytes"
type_synonym batch = "(bytes \<times> bytes) list"

text \<open>\<open>ReceiptsPrefix = []byte("receipts-")\<close>\<close>

definition ReceiptsPrefix :: bytes where
  "ReceiptsPrefix = [114, 101, 99, 101, 105, 112, 116, 115, 45]"


section \<open>Transactions, headers and blocks\<close>

text \<open>
  \<open>etypes.Transaction\<close>: nonce, gas price, gas limit, recipient (\<open>nil\<close> for a contract
  creation), value, payload and the flag \<open>tx.Protected()\<close> derived from the signature
  values. \<open>GasPrice\<close> and \<open>Value\<close> are \<open>*big.Int\<close>.
\<close>

record Transaction =
  Nonce :: "64 word"
  GasPrice :: int
  Gas :: "64 word"
  To :: "address option"
  Value :: int
  Data :: bytes
  Signature :: bytes
  Protected :: bool

text \<open>\<open>tx.Cost()\<close>: "cost == V + GP * GL" (comment in \<open>CheckTx\<close>).\<close>

definition Cost :: "Transaction \<Rightarrow> int" where
  "Cost tx = Value tx + GasPrice tx * uint (Gas tx)"

record Header =
  ParentHash :: hash
  Difficulty :: int
  GasLimit :: "64 word"
  Time :: int
  Number :: int

text \<open>
  \<open>gtypes.Block\<close>, with the parts the application reads: \<open>block.Hash()\<close>,
  \<open>block.Header.LastBlockID.Hash\<close>, \<open>block.Header.Time.Unix()\<close>,
  \<open>block.Header.Height\<close> (an \<open>int64\<close>) and \<open>block.Data.Txs\<close>.
\<close>

record Block =
  BlockHash :: bytes
  LastBlockIDHash :: bytes
  TimeUnix :: int
  Height :: "64 word"
  Txs :: "bytes list"

record LastBlockInfo =
  LHeight :: "64 word"
  AppHash :: bytes
  PrivHash :: bytes

text \<open>\<open>gtypes.ExecuteResult\<close> and \<open>gtypes.CommitResult\<close>.\<close>

record ExecuteResult =
  ValidTxs :: "bytes list"
  InvalidTxs :: "(bytes \<times> error) list"

record CommitResult =
  CAppHash :: bytes
  ReceiptsHash :: bytes

section \<open>World state\<close>

record Account =
  nonce :: "64 word"
  balance :: int
  codeHash :: hash

type_synonym view = "address \<Rightarrow> Account"

text \<open>
  Modelled from the spec: \<open>estate.StateDB\<close> (package \<open>eth/core/state\<close>) is not part of
  the source file. Section 4.1 of the specification describes it: \<open>Snapshot()\<close> returns a
  monotonically increasing marker, \<open>RevertToSnapshot(marker)\<close> discards all deltas
  recorded after the marker, the reads \<open>GetNonce\<close>, \<open>GetBalance\<close>, \<open>GetCodeHash\<close> never
  mutate, and \<open>Prepare(txHash, blockHash, index)\<close> sets the per-transaction correlation
  context. The state is the account view, the views saved at the live markers, and the
  correlation context. A marker is the number of markers that are live when it is
  taken, so the live markers increase in the order they were taken; reverting to a
  marker restores the view saved with it and discards that marker and the later ones.
  A marker that is not live makes \<open>RevertToSnapshot\<close> panic.
\<close>

record StateDB =
  accounts :: view
  revisions :: "view list"
  thash :: hash
  bhash :: hash
  txIndex :: int

definition Snapshot :: "StateDB \<Rightarrow> nat \<times> StateDB" where
  "Snapshot s = (length (revisions s), s\<lparr>revisions := revisions s @ [accounts s]\<rparr>)"

definition RevertToSnapshot :: "nat \<Rightarrow> StateDB \<Rightarrow> error + StateDB" where
  "RevertToSnapshot revid s =
     (if revid < length (revisions s)
      then Inr (s\<lparr>accounts := revisions s ! revid, revisions := take revid (revisions s)\<rparr>)
      else Inl (Panic ''revision id cannot be reverted''))"

definition GetNonce :: "StateDB \<Rightarrow> address \<Rightarrow> 64 word" where
  "GetNonce s a = nonce (accounts s a)"

definition GetBalance :: "StateDB \<Rightarrow> address \<Rightarrow> int" where
  "GetBalance s a = balance (accounts s a)"

definition GetCodeHash :: "StateDB \<Rightarrow> address \<Rightarrow> hash" where
  "GetCodeHash s a = codeHash (accounts s a)"

definition SetNonce :: "address \<Rightarrow> 64 word \<Rightarrow> StateDB \<Rightarrow> StateDB" where
  "SetNonce a n s = s\<lparr>accounts := (accounts s)(a := (accounts s a)\<lparr>nonce := n\<rparr>)\<rparr>"

definition Prepare :: "hash \<Rightarrow> hash \<Rightarrow> int \<Rightarrow> StateDB \<Rightarrow> StateDB" where
  "Prepare th bh ti s = s\<lparr>thash := th, bhash := bh, txIndex := ti\<rparr>"

section \<open>External collaborators\<close>

text \<open>
  The packages the application calls but which are not part of the source file are
  parameters of the model. A Go function returning \<open>(value, error)\<close> is a sum, the
  message on the left; where the caller uses the value whatever the error is, the
  function returns the pair.
  \<^item> \<open>EncodeTx\<close>, \<open>DecodeTx\<close>, \<open>EncodeReceipt\<close>, \<open>EncodeNonce\<close>: \<open>rlp.EncodeToBytes\<close> and
    \<open>rlp.DecodeBytes\<close> at the types they are used at;
  \<open>HashTx\<close>: \<open>tx.Hash()\<close>; \<open>HashRaw\<close>: \<open>gtypes.Tx(bytes).Hash()\<close>;
  \<open>BytesToHash\<close>: \<open>common.BytesToHash\<close>;
  \<^item> \<open>HomesteadSender\<close>, \<open>AnnsteadSender\<close>: the \<open>Sender\<close> methods of the two signers
    (\<open>publicSigner\<close> is a \<open>HomesteadSigner\<close>, \<open>privateSigner\<close> an \<open>AnnsteadSigner\<close>);
  \<^item> \<open>Execute\<close>: the bytecode executor behind \<open>core.ApplyTransaction\<close>;
  \<^item> \<open>StateNew\<close>: \<open>estate.New(root, estate.NewDatabase(db))\<close>, which returns a handle
    and an error; \<open>StateCommit\<close>: \<open>StateDB.Commit(true)\<close>; \<open>TrieCommit\<close>:
    \<open>StateDB.Database().TrieDB().Commit(root, false)\<close>, which writes to the store;
  \<^item> \<open>SimpleHashFromHashes\<close>: the binary Merkle root of package \<open>go-merkle\<close>;
  \<^item> \<open>PutFails\<close>, \<open>WriteFails\<close>: whether a batch \<open>Put\<close> or \<open>Write\<close> of the store fails;
  \<^item> \<open>DecodePayload\<close>: \<open>private.ReplacePayload.Decode\<close>; \<open>SendPayload\<close>:
    \<open>commu.SendPayload\<close>, the secure channel.
\<close>

record extern =
  EncodeTx :: "Transaction \<Rightarrow> string + bytes"
  DecodeTx :: "bytes \<Rightarrow> string + Transaction"
  EncodeReceipt :: "Receipt \<Rightarrow> string + bytes"
  EncodeNonce :: "64 word \<Rightarrow> string + bytes"
  HashTx :: "Transaction \<Rightarrow> hash"
  HashRaw :: "bytes \<Rightarrow> bytes"
  BytesToHash :: "bytes \<Rightarrow> hash"
  HomesteadSender :: "Transaction \<Rightarrow> address \<times> string option"
  AnnsteadSender :: "Transaction \<Rightarrow> address \<times> string option"
  Execute :: "Header \<Rightarrow> 64 word \<Rightarrow> hash \<times> hash \<times> int \<Rightarrow> Transaction \<Rightarrow> view
                \<Rightarrow> (string + Receipt) \<times> view"
  StateNew :: "hash \<Rightarrow> database \<Rightarrow> StateDB option \<times> string option"
  StateCommit :: "StateDB \<Rightarrow> (string + hash) \<times> StateDB"
  TrieCommit :: "StateDB \<Rightarrow> hash \<Rightarrow> database \<Rightarrow> string option \<times> database"
  SimpleHashFromHashes :: "bytes list \<Rightarrow> bytes"
  PutFails :: "bytes \<Rightarrow> bytes \<Rightarrow> string option"
  WriteFails :: "batch \<Rightarrow> string option"
  DecodePayload :: "bytes \<Rightarrow> string + bytes list \<times> bytes"
  SendPayload :: "bytes list \<Rightarrow> bytes \<Rightarrow> string + bytes"

text \<open>
  Modelled from the spec: the batch of \<open>ethdb\<close> is not part of the source file. Section
  4.6: receipts are persisted under their keys, "batched for atomic write". \<open>Put\<close> queues
  a write, \<open>Write\<close> applies the queued writes in order, or fails and applies none.
\<close>

definition batchPut :: "extern \<Rightarrow> batch \<Rightarrow> bytes \<Rightarrow> bytes \<Rightarrow> string + batch" where
  "batchPut x b k v = (case PutFails x k v of Some e \<Rightarrow> Inl e | None \<Rightarrow> Inr (b @ [(k, v)]))"

fun applyBatch :: "batch \<Rightarrow> database \<Rightarrow> database" where
  "applyBatch [] db = db"
| "applyBatch ((k, v) # b) db = applyBatch b (db(k \<mapsto> v))"

definition batchWrite :: "extern \<Rightarrow> batch \<Rightarrow> database \<Rightarrow> string + database" where
  "batchWrite x b db = (case WriteFails x b of Some e \<Rightarrow> Inl e | None \<Rightarrow> Inr (applyBatch b db))"

section \<open>The application\<close>

text \<open>
  \<open>EVMApp\<close>. The state handles are pointers and may be \<open>nil\<close>. \<open>lastBlock\<close> is the
  record that \<open>SaveLastBlock\<close> persists and \<open>LoadLastBlock\<close> reads (\<open>BaseApplication\<close>).
  The transaction pool is not modelled.
\<close>

record EVMApp =
  secChanHost :: string
  currentHeader :: "Header option"
  stateDb :: database
  lastBlock :: "LastBlockInfo option"
  publicState :: "StateDB option"
  currentPublicState :: "StateDB option"
  privateState :: "StateDB option"
  currentPrivateState :: "StateDB option"
  publicReceipts :: "Receipt list"
  privateReceipts :: "Receipt list"

definition EmptyTrieRoot :: hash where
  "EmptyTrieRoot =
     [0x56, 0xe8, 0x1f, 0x17, 0x1b, 0xcc, 0x55, 0xa6, 0xff, 0x83, 0x45, 0xe6, 0x92, 0xc0, 0xf8, 0x6e,
      0x5b, 0x48, 0xe0, 0x1b, 0x99, 0x6c, 0xad, 0xc0, 0x01, 0x62, 0x2f, 0xb5, 0xe3, 0x63, 0xb4, 0x21]"

definition SaveLastBlock :: "LastBlockInfo \<Rightarrow> EVMApp \<Rightarrow> EVMApp" where
  "SaveLastBlock lb app = app\<lparr>lastBlock := Some lb\<rparr>"

definition getLastAppHash :: "extern \<Rightarrow> EVMApp \<Rightarrow> hash \<times> hash" where
  "getLastAppHash x app =
     (let lb = (case lastBlock app of
                  Some r \<Rightarrow> r
                | None \<Rightarrow> \<lparr>LHeight = 0, AppHash = [], PrivHash = []\<rparr>);
          pubHash = (if length (AppHash lb) > 0 then BytesToHash x (AppHash lb) else EmptyTrieRoot);
          privHash = (if length (PrivHash lb) > 0 then BytesToHash x (PrivHash lb) else EmptyTrieRoot)
      in (pubHash, privHash))"

section \<open>Receipts\<close>

text \<open>
  \<open>SaveReceipts\<close>. The first loop serialises each public receipt, queues it under
  \<open>ReceiptsPrefix + TxHash\<close> and appends the serialised bytes to \<open>savedReceipts\<close>; the
  second loop serialises and queues each private receipt and appends nothing.
\<close>

fun savePublicReceipts ::
  "extern \<Rightarrow> Receipt list \<Rightarrow> batch \<Rightarrow> bytes list \<Rightarrow> error + batch \<times> bytes list" where
  "savePublicReceipts x [] receiptBatch savedReceipts = Inr (receiptBatch, savedReceipts)"
| "savePublicReceipts x (publicReceipt # rest) receiptBatch savedReceipts =
     (case EncodeReceipt x publicReceipt of
        Inl e \<Rightarrow> Inl (Err (''wrong rlp encode:'' @ e))
      | Inr storageReceiptBytes \<Rightarrow>
          (case batchPut x receiptBatch (ReceiptsPrefix @ TxHash publicReceipt) storageReceiptBytes of
             Inl e \<Rightarrow> Inl (Err (''batch publicReceipt failed:'' @ e))
           | Inr receiptBatch' \<Rightarrow>
               savePublicReceipts x rest receiptBatch' (savedReceipts @ [storageReceiptBytes])))"

fun savePrivateReceipts :: "extern \<Rightarrow> Receipt list \<Rightarrow> batch \<Rightarrow> error + batch" where
  "savePrivateReceipts x [] receiptBatch = Inr receiptBatch"
| "savePrivateReceipts x (privReceipt # rest) receiptBatch =
     (case EncodeReceipt x privReceipt of
        Inl e \<Rightarrow> Inl (Err (''wrong rlp encode:'' @ e))
      | Inr storageReceiptBytes \<Rightarrow>
          (case batchPut x receiptBatch (ReceiptsPrefix @ TxHash privReceipt) storageReceiptBytes of
             Inl e \<Rightarrow> Inl (Err (''batch storageReceipt failed:'' @ e))
           | Inr receiptBatch' \<Rightarrow> savePrivateReceipts x rest receiptBatch'))"

definition SaveReceipts :: "extern \<Rightarrow> EVMApp \<Rightarrow> (error + bytes) \<times> EVMApp" where
  "SaveReceipts x app =
     (case savePublicReceipts x (publicReceipts app) [] [] of
        Inl e \<Rightarrow> (Inl e, app)
      | Inr (receiptBatch, savedReceipts) \<Rightarrow>
          (case savePrivateReceipts x (privateReceipts app) receiptBatch of
             Inl e \<Rightarrow> (Inl e, app)
           | Inr receiptBatch' \<Rightarrow>
               (case batchWrite x receiptBatch' (stateDb app) of
                  Inl e \<Rightarrow> (Inl (Err (''persist receipts failed:'' @ e)), app)
                | Inr db \<Rightarrow> (Inr (SimpleHashFromHashes x savedReceipts), app\<lparr>stateDb := db\<rparr>))))"


section \<open>Block execution\<close>

text \<open>\<open>Sender\<close>: the signer is chosen by the protected flag.\<close>

definition Sender :: "extern \<Rightarrow> Transaction \<Rightarrow> address \<times> string option" where
  "Sender x tx = (if Protected tx then AnnsteadSender x tx else HomesteadSender x tx)"

text \<open>\<open>math.MaxBig256.Uint64()\<close> is the low 64 bits of \<open>2^256 - 1\<close>.\<close>

definition MaxBig256_Uint64 :: "64 word" where
  "MaxBig256_Uint64 = - 1"

definition makeCurrentHeader :: "extern \<Rightarrow> Block \<Rightarrow> Header" where
  "makeCurrentHeader x block =
     \<lparr>ParentHash = BytesToHash x (LastBlockIDHash block),
      Difficulty = 0,
      GasLimit = MaxBig256_Uint64,
      Time = TimeUnix block,
      Number = sint (Height block)\<rparr>"

definition makePublicPayloadHashReceipt :: "extern \<Rightarrow> Transaction \<Rightarrow> Receipt" where
  "makePublicPayloadHashReceipt x tx = \<lparr>TxHash = HashTx x tx, GasUsed = 0, Status = 1\<rparr>"

text \<open>
  Modelled from the spec: \<open>core.ApplyTransaction\<close> is not part of the source file. The
  specification (sections 1 and 6) describes it as an opaque executor
  \<open>Execute(tx, stateView, header, gasPool) \<rightarrow> receipt | error\<close> that consumes a
  transaction and a mutable account-state view. The executor sees the correlation
  context set by \<open>Prepare\<close> and may change the view also when it fails.
\<close>

definition ApplyTransaction ::
  "extern \<Rightarrow> Header \<Rightarrow> 64 word \<Rightarrow> Transaction \<Rightarrow> StateDB \<Rightarrow> (string + Receipt) \<times> StateDB" where
  "ApplyTransaction x header gp tx s =
     (case Execute x header gp (thash s, bhash s, txIndex s) tx (accounts s) of
        (r, v) \<Rightarrow> (r, s\<lparr>accounts := v\<rparr>))"

text \<open>
  The variables that the closures returned by \<open>genExecFun\<close> share: the two in-progress
  states (\<open>publicState\<close> and \<open>privateState\<close> in the closure are
  \<open>app.currentPublicState\<close> and \<open>app.currentPrivateState\<close>), the two snapshot markers,
  the two temporary receipt lists, the accumulators \<open>app.publicReceipts\<close> and
  \<open>app.privateReceipts\<close>, and the execute result \<open>res\<close>.
\<close>

record closure =
  publicState' :: StateDB
  privateState' :: StateDB
  publicSnapshot :: nat
  privateSnapshot :: nat
  temPublicReceipt :: "Receipt list"
  temPrivateReceipt :: "Receipt list"
  publicReceipts' :: "Receipt list"
  privateReceipts' :: "Receipt list"
  res :: ExecuteResult

datatype ledger = Public | Private

text \<open>The head of the function returned by \<open>genExecFun\<close>: both snapshots, empty lists.\<close>

definition beginExec :: "closure \<Rightarrow> closure" where
  "beginExec c =
     (case Snapshot (publicState' c) of (pubSnap, ps) \<Rightarrow>
      case Snapshot (privateState' c) of (privSnap, qs) \<Rightarrow>
        c\<lparr>publicState' := ps, publicSnapshot := pubSnap,
          privateState' := qs, privateSnapshot := privSnap,
          temPublicReceipt := [], temPrivateReceipt := []\<rparr>)"

text \<open>
  The tail of \<open>execFunc\<close>, from \<open>runEvmState.Prepare\<close> on; \<open>runEvmState\<close> names the
  in-progress state of one of the two ledgers.
\<close>

definition runEvm ::
  "extern \<Rightarrow> Header \<Rightarrow> 64 word \<Rightarrow> hash \<Rightarrow> int \<Rightarrow> bytes \<Rightarrow> Transaction \<Rightarrow> ledger \<Rightarrow> closure
     \<Rightarrow> error option \<times> closure" where
  "runEvm x header gp blockHash txIdx txhash tx runEvmState c =
     (let s = Prepare (BytesToHash x txhash) blockHash txIdx
                (case runEvmState of Public \<Rightarrow> publicState' c | Private \<Rightarrow> privateState' c)
      in case ApplyTransaction x header gp tx s of
           (r, s') \<Rightarrow>
             (let c' = (case runEvmState of
                          Public \<Rightarrow> c\<lparr>publicState' := s'\<rparr>
                        | Private \<Rightarrow> c\<lparr>privateState' := s'\<rparr>)
              in case r of
                   Inl e \<Rightarrow> (Some (Err e), c')
                 | Inr receipt \<Rightarrow>
                     if Protected tx
                     then (None, c'\<lparr>temPrivateReceipt := temPrivateReceipt c' @ [receipt]\<rparr>)
                     else (None, c'\<lparr>temPublicReceipt := temPublicReceipt c' @ [receipt]\<rparr>)))"

definition execFunc ::
  "extern \<Rightarrow> string \<Rightarrow> Header \<Rightarrow> hash \<Rightarrow> int \<Rightarrow> bytes \<Rightarrow> Transaction \<Rightarrow> closure
     \<Rightarrow> error option \<times> closure" where
  "execFunc x host header blockHash txIdx raw tx c =
     (let gp = MaxBig256_Uint64
      in case EncodeTx x tx of
           Inl e \<Rightarrow> (Some (Err e), c)
         | Inr txBytes \<Rightarrow>
             (let txhash = HashRaw x txBytes;
                  from = fst (HomesteadSender x tx)
              in if Protected tx then
                   if length host > 0 then
                     runEvm x header gp blockHash txIdx txhash tx Private
                       (c\<lparr>publicState' :=
                            SetNonce from (GetNonce (publicState' c) from + 1) (publicState' c)\<rparr>)
                   else
                     (let ps = Prepare (BytesToHash x txhash) blockHash txIdx (publicState' c);
                          ps' = SetNonce from (GetNonce ps from + 1) ps;
                          qs' = SetNonce from (GetNonce (privateState' c) from + 1) (privateState' c)
                      in (None, c\<lparr>publicState' := ps', privateState' := qs',
                                  temPublicReceipt :=
                                    temPublicReceipt c @ [makePublicPayloadHashReceipt x tx]\<rparr>))
                 else
                   runEvm x header gp blockHash txIdx txhash tx Public
                     (c\<lparr>privateState' :=
                          SetNonce from (GetNonce (privateState' c) from + 1) (privateState' c)\<rparr>)))"

definition endFunc :: "bytes \<Rightarrow> error option \<Rightarrow> closure \<Rightarrow> error + bool \<times> closure" where
  "endFunc raw err c =
     (case err of
        Some e \<Rightarrow>
          (case RevertToSnapshot (publicSnapshot c) (publicState' c) of
             Inl p \<Rightarrow> Inl p
           | Inr ps \<Rightarrow>
               (case RevertToSnapshot (privateSnapshot c) (privateState' c) of
                  Inl p \<Rightarrow> Inl p
                | Inr qs \<Rightarrow>
                    Inr (True,
                         c\<lparr>publicState' := ps, privateState' := qs,
                           temPrivateReceipt := [], temPublicReceipt := [],
                           res := (res c)\<lparr>InvalidTxs := InvalidTxs (res c) @ [(raw, e)]\<rparr>\<rparr>)))
      | None \<Rightarrow>
          Inr (True,
               c\<lparr>privateReceipts' := privateReceipts' c @ temPrivateReceipt c,
                 publicReceipts' := publicReceipts' c @ temPublicReceipt c,
                 res := (res c)\<lparr>ValidTxs := ValidTxs (res c) @ [raw]\<rparr>\<rparr>))"

text \<open>
  Modelled from the spec: \<open>exeWithCPUParallelVeirfy\<close> is not part of the source file.
  Sections 4.2 and 4.3: the senders are recovered with the ledger-appropriate scheme;
  the results are consumed strictly in block order; for each transaction the begin
  function is called, then the execute function, then the end function; a verification
  failure is treated as an execution failure of that transaction. A raw transaction
  that does not decode is treated the same way. The loop stops when the end function
  returns false.
\<close>

definition oneTx ::
  "extern \<Rightarrow> string \<Rightarrow> Header \<Rightarrow> hash \<Rightarrow> int \<Rightarrow> bytes \<Rightarrow> closure \<Rightarrow> error + bool \<times> closure" where
  "oneTx x host header blockHash i raw c =
     (let c0 = beginExec c
      in case (case DecodeTx x raw of
                 Inl e \<Rightarrow> (Some (Err e), c0)
               | Inr tx \<Rightarrow>
                   (case snd (Sender x tx) of
                      Some e \<Rightarrow> (Some (Err e), c0)
                    | None \<Rightarrow> execFunc x host header blockHash i raw tx c0)) of
           (err, c1) \<Rightarrow> endFunc raw err c1)"

fun exeWithCPUParallelVeirfy ::
  "extern \<Rightarrow> string \<Rightarrow> Header \<Rightarrow> hash \<Rightarrow> int \<Rightarrow> bytes list \<Rightarrow> closure \<Rightarrow> error + closure" where
  "exeWithCPUParallelVeirfy x host header blockHash i [] c = Inr c"
| "exeWithCPUParallelVeirfy x host header blockHash i (raw # txs) c =
     (case oneTx x host header blockHash i raw c of
        Inl p \<Rightarrow> Inl p
      | Inr (continue, c') \<Rightarrow>
          if continue then exeWithCPUParallelVeirfy x host header blockHash (i + 1) txs c'
          else Inr c')"

text \<open>
  \<open>OnExecute\<close>. Both in-progress states are opened at the persisted roots; the loop runs
  on them, and its error is dropped. The count of duplicate transactions at the end of
  the function has no effect and is left out. When a state handle is \<open>nil\<close> without an
  error, the first transaction panics.
\<close>

definition OnExecute ::
  "extern \<Rightarrow> 64 word \<Rightarrow> 64 word \<Rightarrow> Block \<Rightarrow> EVMApp \<Rightarrow> (error + ExecuteResult) \<times> EVMApp" where
  "OnExecute x height round block app =
     (case getLastAppHash x app of (pubHash, privHash) \<Rightarrow>
      case StateNew x pubHash (stateDb app) of (ps, err) \<Rightarrow>
        (let app1 = app\<lparr>currentPublicState := ps\<rparr>
         in case err of
              Some e \<Rightarrow> (Inl (Err (''create StateDB failed: '' @ e)), app1)
            | None \<Rightarrow>
               (case StateNew x privHash (stateDb app1) of (qs, err') \<Rightarrow>
                 (let app2 = app1\<lparr>currentPrivateState := qs\<rparr>
                  in case err' of
                       Some e \<Rightarrow> (Inl (Err (''create StateDB failed: '' @ e)), app2)
                     | None \<Rightarrow>
                        (let header = makeCurrentHeader x block;
                             app3 = app2\<lparr>currentHeader := Some header\<rparr>;
                             res0 = \<lparr>ValidTxs = [], InvalidTxs = []\<rparr>
                         in if Txs block = [] then (Inr res0, app3)
                            else
                              (case (ps, qs) of
                                 (Some p, Some q) \<Rightarrow>
                                   (case exeWithCPUParallelVeirfy x (secChanHost app3) header
                                           (BytesToHash x (BlockHash block)) 0 (Txs block)
                                           \<lparr>publicState' = p, privateState' = q,
                                            publicSnapshot = 0, privateSnapshot = 0,
                                            temPublicReceipt = [], temPrivateReceipt = [],
                                            publicReceipts' = publicReceipts app3,
                                            privateReceipts' = privateReceipts app3,
                                            res = res0\<rparr> of
                                      Inl pn \<Rightarrow> (Inl pn, app3)
                                    | Inr c \<Rightarrow>
                                        (Inr (res c),
                                         app3\<lparr>currentPublicState := Some (publicState' c),
                                              currentPrivateState := Some (privateState' c),
                                              publicReceipts := publicReceipts' c,
                                              privateReceipts := privateReceipts' c\<rparr>))
                               | _ \<Rightarrow> (Inl (Panic ''nil pointer dereference''), app3)))))))"


section \<open>Commit\<close>

text \<open>
  \<open>OnCommit\<close>. An assignment \<open>app.publicState, err = estate.New(...)\<close> stores the
  returned handle before the error is looked at. The result of \<open>SaveLastBlock\<close> is not
  used; an error of \<open>SaveReceipts\<close> is logged and \<open>rHash\<close> stays \<open>nil\<close>.
\<close>

definition OnCommit ::
  "extern \<Rightarrow> 64 word \<Rightarrow> 64 word \<Rightarrow> Block \<Rightarrow> EVMApp \<Rightarrow> (error + CommitResult) \<times> EVMApp" where
  "OnCommit x height round block app =
     (case currentPublicState app of
        None \<Rightarrow> (Inl (Panic ''nil pointer dereference''), app)
      | Some cps \<Rightarrow>
     (case StateCommit x cps of (r, cps') \<Rightarrow>
     (let app1 = app\<lparr>currentPublicState := Some cps'\<rparr>
      in case r of
        Inl e \<Rightarrow> (Inl (Err e), app1)
      | Inr appHash \<Rightarrow>
     (case currentPrivateState app1 of
        None \<Rightarrow> (Inl (Panic ''nil pointer dereference''), app1)
      | Some cqs \<Rightarrow>
     (case StateCommit x cqs of (r', cqs') \<Rightarrow>
     (let app2 = app1\<lparr>currentPrivateState := Some cqs'\<rparr>
      in case r' of
        Inl e \<Rightarrow> (Inl (Err e), app2)
      | Inr privHash \<Rightarrow>
     (case TrieCommit x cps' appHash (stateDb app2) of (err, db) \<Rightarrow>
     (let app3 = app2\<lparr>stateDb := db\<rparr>
      in case err of
        Some e \<Rightarrow> (Inl (Err e), app3)
      | None \<Rightarrow>
     (case TrieCommit x cqs' privHash (stateDb app3) of (err', db') \<Rightarrow>
     (let app4 = app3\<lparr>stateDb := db'\<rparr>
      in case err' of
        Some e \<Rightarrow> (Inl (Err e), app4)
      | None \<Rightarrow>
     (case StateNew x appHash (stateDb app4) of (ps, perr) \<Rightarrow>
     (let app5 = app4\<lparr>publicState := ps\<rparr>
      in case perr of
        Some e \<Rightarrow> (Inl (Err (''create public StateDB failed: '' @ e)), app5)
      | None \<Rightarrow>
     (case StateNew x privHash (stateDb app5) of (qs, qerr) \<Rightarrow>
     (let app6 = app5\<lparr>privateState := qs\<rparr>
      in case qerr of
        Some e \<Rightarrow> (Inl (Err (''create private StateDB failed: '' @ e)), app6)
      | None \<Rightarrow>
     (let app7 = SaveLastBlock \<lparr>LHeight = height, AppHash = appHash, PrivHash = privHash\<rparr> app6
      in case SaveReceipts x app7 of (sr, app8) \<Rightarrow>
     (let rHash = (case sr of Inl e \<Rightarrow> [] | Inr h \<Rightarrow> h);
          app9 = app8\<lparr>publicReceipts := [], privateReceipts := []\<rparr>
      in (Inr \<lparr>CAppHash = appHash, ReceiptsHash = rHash\<rparr>, app9)))))))))))))))))"

section \<open>Admission\<close>

text \<open>
  The tail of \<open>CheckTx\<close>, from the nonce check on. \<open>judgeState\<close> is the confirmed state
  of the target ledger; the comparison of nonces is unsigned.
\<close>

definition checkNonceAndFunds ::
  "extern \<Rightarrow> Transaction \<Rightarrow> address \<Rightarrow> StateDB option \<Rightarrow> error + bytes" where
  "checkNonceAndFunds x tx from judgeState =
     (case judgeState of
        None \<Rightarrow> Inl (Panic ''nil pointer dereference'')
      | Some js \<Rightarrow>
          if GetNonce js from > Nonce tx
          then Inl (Err ''nonce different with getNonce, transaction already exists'')
          else if GetBalance js from < Cost tx
          then Inl (Err ''not enough funds'')
          else (case EncodeTx x tx of Inl e \<Rightarrow> Inl (Err e) | Inr out \<Rightarrow> Inr out))"

text \<open>
  \<open>CheckTx\<close> assigns no field of the application; the application is returned as it
  is left. \<open>SendPayload\<close> acts on the secure channel only.
\<close>

definition CheckTx :: "extern \<Rightarrow> bytes \<Rightarrow> EVMApp \<Rightarrow> (error + bytes) \<times> EVMApp" where
  "CheckTx x bs app =
     (case DecodeTx x bs of
        Inl e \<Rightarrow> (Inl (Err e), app)
      | Inr tx \<Rightarrow>
          if Protected tx then
            (let from = fst (AnnsteadSender x tx);
                 judgeState = privateState app
             in case DecodePayload x (Data tx) of
                  Inl e \<Rightarrow> (Inl (Err e), app)
                | Inr (privateMembers, payload) \<Rightarrow>
                    if length (secChanHost app) > 0 then
                      (case SendPayload x privateMembers payload of
                         Inl e \<Rightarrow> (Inl (Err e), app)
                       | Inr payloadHash \<Rightarrow>
                           (checkNonceAndFunds x (tx\<lparr>Data := payloadHash\<rparr>) from judgeState, app))
                    else (Inl (Err ''node private tx unsupported''), app))
          else
            (let from = fst (HomesteadSender x tx);
                 judgeState = publicState app
             in (checkNonceAndFunds x tx from judgeState, app)))"

section \<open>Queries\<close>

datatype CodeType = CodeType_OK | CodeType_BaseInvalidInput | CodeType_InternalError

record Result =
  Code :: CodeType
  RData :: bytes
  Log :: string

definition NewError :: "CodeType \<Rightarrow> string \<Rightarrow> Result" where
  "NewError code log = \<lparr>Code = code, RData = [], Log = log\<rparr>"

definition NewResultOK :: "bytes \<Rightarrow> string \<Rightarrow> Result" where
  "NewResultOK d log = \<lparr>Code = CodeType_OK, RData = d, Log = log\<rparr>"

text \<open>A value of type \<open>interface{}\<close> returned by the consensus engine's store.\<close>

datatype iface = IBytes bytes | IOther bytes

text \<open>
  What the query handlers use and the source file does not hold: the action tags of
  package \<open>rtypes\<close>; \<open>app.core\<close> (\<open>nil\<close> until \<open>SetCore\<close>) with \<open>Query\<close> and
  \<open>GetBlockMeta\<close>, the latter giving the parts of the block header that are read
  (last block hash, time, height, application hash); \<open>rlp.EncodeToBytes\<close> on a store
  value; \<open>core.ApplyMessage\<close> on a header, a sender, a transaction and an account view.
\<close>

record qextern =
  QueryType_Contract :: byte
  QueryTypeContractByHeight :: byte
  QueryType_Nonce :: byte
  QueryType_Receipt :: byte
  QueryType_Existence :: byte
  QueryType_PayLoad :: byte
  QueryType_TxRaw :: byte
  CoreSet :: bool
  CoreQuery :: "byte \<Rightarrow> bytes \<Rightarrow> string + iface"
  GetBlockMeta :: "64 word \<Rightarrow> string + bytes \<times> int \<times> 64 word \<times> bytes"
  EncodeIface :: "iface \<Rightarrow> string + bytes"
  ApplyMessage :: "Header \<Rightarrow> address \<Rightarrow> Transaction \<Rightarrow> view \<Rightarrow> bytes \<times> string option"

definition nilDeref :: error where
  "nilDeref = Panic ''invalid memory address or nil pointer dereference''"

definition queryContractExistence :: "extern \<Rightarrow> EVMApp \<Rightarrow> bytes \<Rightarrow> error + Result" where
  "queryContractExistence x app load =
     (case DecodeTx x load of
        Inl e \<Rightarrow> Inr (NewError CodeType_BaseInvalidInput e)
      | Inr tx \<Rightarrow>
          (case (if Protected tx then privateState app else publicState app) of
             None \<Rightarrow> Inl nilDeref
           | Some st \<Rightarrow>
               (case To tx of
                  None \<Rightarrow> Inl nilDeref
                | Some contractAddr \<Rightarrow>
                    if Data tx = GetCodeHash st contractAddr
                    then Inr (NewResultOK [1] ''contract exists'')
                    else Inr (NewResultOK [0] ''constract doesn't exist''))))"

definition makeETHHeader :: "extern \<Rightarrow> bytes \<times> int \<times> 64 word \<times> bytes \<Rightarrow> Header" where
  "makeETHHeader x header =
     (case header of (lastHash, time, height, appHash) \<Rightarrow>
        \<lparr>ParentHash = BytesToHash x lastHash,
         Difficulty = 0,
         GasLimit = MaxBig256_Uint64,
         Time = time,
         Number = sint height\<rparr>)"

definition queryContract ::
  "extern \<Rightarrow> qextern \<Rightarrow> EVMApp \<Rightarrow> bytes \<Rightarrow> 64 word \<Rightarrow> error + Result" where
  "queryContract x q app load height =
     (case DecodeTx x load of
        Inl e \<Rightarrow> Inr (NewError CodeType_BaseInvalidInput e)
      | Inr tx \<Rightarrow>
          (case Sender x tx of
             (from, Some e) \<Rightarrow> Inr (NewError CodeType_BaseInvalidInput e)
           | (from, None) \<Rightarrow>
               if height = 0 then
                 (case currentHeader app of
                    None \<Rightarrow> Inl nilDeref
                  | Some header \<Rightarrow>
                      (case (if Protected tx then currentPrivateState app
                             else currentPublicState app) of
                         None \<Rightarrow> Inl nilDeref
                       | Some st \<Rightarrow>
                           Inr (NewResultOK (fst (ApplyMessage q header from tx (accounts st))) [])))
               else if \<not> CoreSet q then Inl nilDeref
               else
                 (case GetBlockMeta q (height + 1) of
                    Inl e \<Rightarrow> Inr (NewError CodeType_BaseInvalidInput e)
                  | Inr meta \<Rightarrow>
                      (case meta of (lastHash, time, h, appHash) \<Rightarrow>
                         (let ethHeader = makeETHHeader x meta;
                              trieRoot = (if length appHash > 0 then BytesToHash x appHash
                                          else EmptyTrieRoot)
                          in case StateNew x trieRoot (stateDb app) of
                               (evmState, Some e) \<Rightarrow> Inr (NewError CodeType_BaseInvalidInput e)
                             | (None, None) \<Rightarrow> Inl nilDeref
                             | (Some st, None) \<Rightarrow>
                                 Inr (NewResultOK
                                        (fst (ApplyMessage q ethHeader from tx (accounts st))) []))))))"

definition queryNonce :: "extern \<Rightarrow> EVMApp \<Rightarrow> bytes \<Rightarrow> error + Result" where
  "queryNonce x app addrBytes =
     (if length addrBytes \<noteq> 20 then Inr (NewError CodeType_BaseInvalidInput ''Invalid address'')
      else
        (case publicState app of
           None \<Rightarrow> Inl nilDeref
         | Some st \<Rightarrow>
             Inr (NewResultOK
                    (case EncodeNonce x (GetNonce st addrBytes) of Inl e \<Rightarrow> [] | Inr d \<Rightarrow> d) [])))"

definition queryReceipt :: "EVMApp \<Rightarrow> bytes \<Rightarrow> error + Result" where
  "queryReceipt app txHashBytes =
     (let key = ReceiptsPrefix @ txHashBytes
      in case stateDb app key of
           None \<Rightarrow> Inr (NewError CodeType_InternalError
                          (''fail to get receipt for tx:'' @ map (\<lambda>b. char_of (unat b)) key))
         | Some d \<Rightarrow> Inr (NewResultOK d []))"

definition queryTransaction :: "qextern \<Rightarrow> bytes \<Rightarrow> error + Result" where
  "queryTransaction q txHashBytes =
     (case txHashBytes of
        [] \<Rightarrow> Inr (NewError CodeType_BaseInvalidInput ''Empty query'')
      | t # key \<Rightarrow>
          if \<not> CoreSet q then Inl nilDeref
          else
            (case CoreQuery q t key of
               Inl e \<Rightarrow> Inr (NewError CodeType_InternalError e)
             | Inr d \<Rightarrow>
                 (case EncodeIface q d of
                    Inl e \<Rightarrow> Inr (NewError CodeType_InternalError e)
                  | Inr bs \<Rightarrow> Inr \<lparr>Code = CodeType_OK, RData = bs, Log = []\<rparr>)))"

definition queryPayLoad :: "qextern \<Rightarrow> bytes \<Rightarrow> error + Result" where
  "queryPayLoad q txHashBytes =
     (case txHashBytes of
        [] \<Rightarrow> Inr (NewError CodeType_BaseInvalidInput ''Empty query'')
      | t # key \<Rightarrow>
          if \<not> CoreSet q then Inl nilDeref
          else
            (case CoreQuery q t key of
               Inl e \<Rightarrow> Inr (NewError CodeType_InternalError e)
             | Inr d \<Rightarrow>
                 Inr \<lparr>Code = CodeType_OK,
                      RData = (case d of IBytes v \<Rightarrow> v | IOther _ \<Rightarrow> []),
                      Log = []\<rparr>))"

text \<open>\<open>binary.BigEndian.Uint64\<close> on a slice of eight bytes.\<close>

definition BigEndian_Uint64 :: "bytes \<Rightarrow> 64 word" where
  "BigEndian_Uint64 bs = foldl (\<lambda>acc b. push_bit 8 acc + ucast b) 0 (take 8 bs)"

text \<open>
  \<open>Query\<close>. \<open>query[0]\<close> and \<open>query[1:]\<close> are taken with no check of the length; on an
  empty slice the index expression panics.
\<close>

definition Query :: "extern \<Rightarrow> qextern \<Rightarrow> EVMApp \<Rightarrow> bytes \<Rightarrow> error + Result" where
  "Query x q app query =
     (case query of
        [] \<Rightarrow> Inl (Panic ''index out of range [0] with length 0'')
      | action # load \<Rightarrow>
          if action = QueryType_Contract q then queryContract x q app load 0
          else if action = QueryTypeContractByHeight q then
            (if length load < 8 then Inr (NewError CodeType_BaseInvalidInput ''wrong height'')
             else queryContract x q app (take (length load - 8) load)
                    (BigEndian_Uint64 (drop (length load - 8) load)))
          else if action = QueryType_Nonce q then queryNonce x app load
          else if action = QueryType_Receipt q then queryReceipt app load
          else if action = QueryType_Existence q then queryContractExistence x app load
          else if action = QueryType_PayLoad q then queryPayLoad q load
          else if action = QueryType_TxRaw q then queryTransaction q load
          else Inr (NewError CodeType_BaseInvalidInput ''unimplemented query''))"


section \<open>The receipt root in the words of the specification\<close>

text \<open>
  The serialised form of each receipt of a list, in order; \<open>None\<close> when one of them
  does not serialise.
\<close>

fun storageBytes :: "extern \<Rightarrow> Receipt list \<Rightarrow> bytes list option" where
  "storageBytes x [] = Some []"
| "storageBytes x (r # rs) =
     (case EncodeReceipt x r of
        Inl e \<Rightarrow> None
      | Inr b \<Rightarrow> (case storageBytes x rs of None \<Rightarrow> None | Some bs \<Rightarrow> Some (b # bs)))"

text \<open>
  Section 4.6: the binary Merkle root over the ordered byte sequence formed by all
  public receipts in block order, followed by all private receipts in block order.
\<close>

definition specReceiptsRoot :: "extern \<Rightarrow> Receipt list \<Rightarrow> Receipt list \<Rightarrow> bytes option" where
  "specReceiptsRoot x pub priv =
     map_option (SimpleHashFromHashes x) (storageBytes x (pub @ priv))"

text \<open>
  The serialised receipts read back from the store, in the order of the list, under
  the keys \<open>SaveReceipts\<close> and \<open>queryReceipt\<close> use.
\<close>

fun persistedBytes :: "database \<Rightarrow> Receipt list \<Rightarrow> bytes list option" where
  "persistedBytes db [] = Some []"
| "persistedBytes db (r # rs) =
     (case db (ReceiptsPrefix @ TxHash r) of
        None \<Rightarrow> None
      | Some b \<Rightarrow> (case persistedBytes db rs of None \<Rightarrow> None | Some bs \<Rightarrow> Some (b # bs)))"

section \<open>A small instance of the collaborators\<close>

text \<open>
  A concrete instance on which the definitions can be run. There are two accounts,
  \<open>[1]\<close> and \<open>[2]\<close>; a state root is the two nonces, one byte each. The public signer
  recovers account \<open>[1]\<close> from every transaction and the private signer account \<open>[2]\<close>.
  A raw transaction is its payload; it is protected when its first byte is 1, and the
  executor fails on the payload \<open>[255]\<close>, after it has changed the balance of the
  sender. On success the executor raises the nonce of account \<open>[1]\<close> by one.
\<close>

definition acct0 :: Account where
  "acct0 = \<lparr>nonce = 0, balance = 0, codeHash = []\<rparr>"

definition state0 :: StateDB where
  "state0 = \<lparr>accounts = (\<lambda>a. acct0), revisions = [], thash = [], bhash = [], txIndex = 0\<rparr>"

definition stateAt :: "hash \<Rightarrow> StateDB" where
  "stateAt root =
     (case root of
        [n1, n2] \<Rightarrow>
          state0\<lparr>accounts := (\<lambda>a. if a = [1] then acct0\<lparr>nonce := ucast n1\<rparr>
                                   else if a = [2] then acct0\<lparr>nonce := ucast n2\<rparr>
                                   else acct0)\<rparr>
      | _ \<Rightarrow> state0)"

definition rootOf :: "StateDB \<Rightarrow> hash" where
  "rootOf s = [ucast (nonce (accounts s [1])), ucast (nonce (accounts s [2]))]"

definition txOf :: "bytes \<Rightarrow> Transaction" where
  "txOf bs =
     \<lparr>Nonce = 0, GasPrice = 1, Gas = 2, To = None, Value = 3, Data = bs, Signature = [],
      Protected = (case bs of [] \<Rightarrow> False | b # _ \<Rightarrow> b = 1)\<rparr>"

definition x0 :: extern where
  "x0 =
     \<lparr>EncodeTx = (\<lambda>tx. Inr (Data tx)),
      DecodeTx = (\<lambda>bs. Inr (txOf bs)),
      EncodeReceipt = (\<lambda>r. Inr (TxHash r @ [ucast (GasUsed r), ucast (Status r)])),
      EncodeNonce = (\<lambda>n. Inr [ucast n]),
      HashTx = Data,
      HashRaw = (\<lambda>bs. bs),
      BytesToHash = (\<lambda>bs. bs),
      HomesteadSender = (\<lambda>tx. ([1], None)),
      AnnsteadSender = (\<lambda>tx. ([2], None)),
      Execute = (\<lambda>header gp ctx tx v.
                   if Data tx = [255]
                   then (Inl ''execution reverted'', v([1] := (v [1])\<lparr>balance := 7\<rparr>))
                   else (Inr \<lparr>TxHash = Data tx, GasUsed = 21, Status = 1\<rparr>,
                         v([1] := (v [1])\<lparr>nonce := nonce (v [1]) + 1\<rparr>))),
      StateNew = (\<lambda>root db. (Some (stateAt root), None)),
      StateCommit = (\<lambda>s. (Inr (rootOf s), s)),
      TrieCommit = (\<lambda>s root db. (None, db)),
      SimpleHashFromHashes = concat,
      PutFails = (\<lambda>k v. None),
      WriteFails = (\<lambda>b. None),
      DecodePayload = (\<lambda>d. Inr ([], d)),
      SendPayload = (\<lambda>members payload. Inr payload)\<rparr>"

definition app0 :: EVMApp where
  "app0 =
     \<lparr>secChanHost = [], currentHeader = None, stateDb = Map.empty, lastBlock = None,
      publicState = Some state0, currentPublicState = Some state0,
      privateState = Some state0, currentPrivateState = Some state0,
      publicReceipts = [], privateReceipts = []\<rparr>"

definition block0 :: Block where
  "block0 = \<lparr>BlockHash = [9], LastBlockIDHash = [8], TimeUnix = 100, Height = 1, Txs = []\<rparr>"

definition header0 :: Header where
  "header0 = makeCurrentHeader x0 block0"

definition closure0 :: closure where
  "closure0 =
     \<lparr>publicState' = state0, privateState' = state0, publicSnapshot = 0, privateSnapshot = 0,
      temPublicReceipt = [], temPrivateReceipt = [], publicReceipts' = [],
      privateReceipts' = [], res = \<lparr>ValidTxs = [], InvalidTxs = []\<rparr>\<rparr>"

definition receiptA :: Receipt where
  "receiptA = \<lparr>TxHash = [10], GasUsed = 21, Status = 1\<rparr>"

definition receiptB :: Receipt where
  "receiptB = \<lparr>TxHash = [11], GasUsed = 22, Status = 1\<rparr>"

section \<open>Inputs of a block\<close>

text \<open>
  What \<open>OnExecute\<close> reads of the application: the configured secure channel host,
  the store, the persisted last-block record (which holds the confirmed roots) and
  the two receipt accumulators, which \<open>OnCommit\<close> leaves empty.
\<close>

definition sameBlockInputs :: "EVMApp \<Rightarrow> EVMApp \<Rightarrow> bool" where
  "sameBlockInputs a b \<longleftrightarrow>
     secChanHost a = secChanHost b \<and> stateDb a = stateDb b \<and> lastBlock a = lastBlock b
   \<and> publicReceipts a = publicReceipts b \<and> privateReceipts a = privateReceipts b"

text \<open>
  The closure variables with the receipts of earlier executions put in front of both
  accumulators.
\<close>

definition withEarlierReceipts :: "Receipt list \<Rightarrow> Receipt list \<Rightarrow> closure \<Rightarrow> closure" where
  "withEarlierReceipts P Q c =
     c\<lparr>publicReceipts' := P @ publicReceipts' c, privateReceipts' := Q @ privateReceipts' c\<rparr>"

text \<open>The serialised form of one receipt, empty when it does not serialise.\<close>

definition storageForm :: "extern \<Rightarrow> Receipt \<Rightarrow> bytes" where
  "storageForm x r = (case EncodeReceipt x r of Inl e \<Rightarrow> [] | Inr b \<Rightarrow> b)"

text \<open>One public and one private receipt in the accumulators.\<close>

definition appC1 :: EVMApp where
  "appC1 = app0\<lparr>publicReceipts := [receiptA], privateReceipts := [receiptB]\<rparr>"

text \<open>
  A public and a private receipt that carry the same transaction hash and differ in
  the gas used.
\<close>

definition appDup :: EVMApp where
  "appDup = app0\<lparr>publicReceipts := [receiptA],
                 privateReceipts := [receiptA\<lparr>GasUsed := 22\<rparr>]\<rparr>"

text \<open>An encoder that refuses receipts, and one receipt to save.\<close>

definition xC10 :: extern where
  "xC10 = x0\<lparr>EncodeReceipt := (\<lambda>r. Inl ''rlp: unsupported'')\<rparr>"

definition appC10 :: EVMApp where
  "appC10 = app0\<lparr>publicReceipts := [receiptA]\<rparr>"

text \<open>
  An executor that raises the nonce of the sender of the transaction, recovered with
  the scheme of its ledger.
\<close>

definition xC5 :: extern where
  "xC5 = x0\<lparr>Execute := (\<lambda>header gp ctx tx v.
                (Inr \<lparr>TxHash = Data tx, GasUsed = 21, Status = 1\<rparr>,
                 v(fst (Sender x0 tx) :=
                     (v (fst (Sender x0 tx)))\<lparr>nonce := nonce (v (fst (Sender x0 tx))) + 1\<rparr>)))\<rparr>"

text \<open>
  The closure variables after \<open>execFunc\<close> has run: on a transaction that the executor
  rejects; on a protected transaction with a secure channel configured; on a
  protected transaction with none.
\<close>

definition c1C4 :: closure where
  "c1C4 = snd (execFunc x0 [] header0 [9] 0 [255] (txOf [255]) (beginExec closure0))"

definition c1C5 :: closure where
  "c1C5 = snd (execFunc xC5 ''sec'' header0 [9] 0 [1] (txOf [1]) (beginExec closure0))"

definition c1C6 :: closure where
  "c1C6 = snd (execFunc x0 [] header0 [9] 0 [1] (txOf [1]) (beginExec closure0))"

text \<open>
  Confirmed public states in which every account has balance 100, with nonce 5 and
  with nonce 0.
\<close>

definition stateLow :: StateDB where
  "stateLow = state0\<lparr>accounts := (\<lambda>a. acct0\<lparr>nonce := 5, balance := 100\<rparr>)\<rparr>"

definition stateRich :: StateDB where
  "stateRich = state0\<lparr>accounts := (\<lambda>a. acct0\<lparr>balance := 100\<rparr>)\<rparr>"

definition appLow :: EVMApp where
  "appLow = app0\<lparr>publicState := Some stateLow\<rparr>"

definition appRich :: EVMApp where
  "appRich = app0\<lparr>publicState := Some stateRich\<rparr>"

text \<open>
  A store on which the state at the root \<open>[0, 0]\<close> cannot be opened, and an application
  whose in-progress public state has root \<open>[1, 0]\<close> and whose in-progress private state
  has root \<open>[0, 0]\<close>.
\<close>

definition xC2 :: extern where
  "xC2 = x0\<lparr>StateNew := (\<lambda>root db. if root = [0, 0] then (None, Some ''missing trie node'')
                                   else (Some (stateAt root), None))\<rparr>"

definition appC2 :: EVMApp where
  "appC2 = app0\<lparr>currentPublicState := Some (stateAt [1, 0])\<rparr>"

text \<open>
  A block of three transactions (a public one, one that the executor rejects, a
  protected one), and an application that agrees with \<open>app0\<close> on the inputs of a block
  and holds other handles from earlier blocks.
\<close>

definition blockC3 :: Block where
  "blockC3 = block0\<lparr>Txs := [ [5], [255], [1] ]\<rparr>"

definition appStale :: EVMApp where
  "appStale = app0\<lparr>publicState := None, currentPublicState := Some stateLow,
                   currentPrivateState := None, currentHeader := Some header0\<rparr>"

text \<open>
  Three applications on the confirmed roots of \<open>app0\<close>: one on which the block has
  been executed once and not committed; one with a secure channel configured; one on a
  store that holds the state at the empty root, for collaborators that look the state
  up in the store and fail when it is missing.
\<close>

definition appAgain :: EVMApp where
  "appAgain = snd (OnExecute x0 1 0 blockC3 app0)"

definition appSec :: EVMApp where
  "appSec = app0\<lparr>secChanHost := ''sec''\<rparr>"

definition xStore :: extern where
  "xStore = x0\<lparr>StateNew := (\<lambda>root db. case db root of
                                     None \<Rightarrow> (None, Some ''missing trie node'')
                                   | Some node \<Rightarrow> (Some (stateAt node), None))\<rparr>"

definition appStore :: EVMApp where
  "appStore = app0\<lparr>stateDb := [EmptyTrieRoot \<mapsto> [0, 0]]\<rparr>"

section \<open>Receipt root and persisted receipts\<close>


lemma storageBytes_Some:
  "storageBytes x rs = Some leaves \<Longrightarrow> leaves = map (storageForm x) rs"
  by (induction rs arbitrary: leaves)
     (auto simp: storageForm_def split: sum.splits option.splits)

lemma storageBytes_length:
  "storageBytes x rs = Some leaves \<Longrightarrow> length leaves = length rs"
  by (drule storageBytes_Some) simp

lemma storageBytes_append:
  "storageBytes x ps = Some pl \<Longrightarrow> storageBytes x qs = Some ql \<Longrightarrow>
     storageBytes x (ps @ qs) = Some (pl @ ql)"
  by (induction ps arbitrary: pl) (auto split: sum.splits option.splits)

lemma applyBatch_map_of:
  "applyBatch b db k = (case map_of (rev b) k of Some v \<Rightarrow> Some v | None \<Rightarrow> db k)"
proof (induction b arbitrary: db)
  case Nil
  then show ?case by simp
next
  case (Cons kv b)
  obtain k' v' where kv: "kv = (k', v')" by (cases kv)
  show ?case
    by (auto simp: kv Cons.IH map_add_def split: option.splits)
qed

lemma applyBatch_functional:
  assumes fn: "\<forall>(k1, v1) \<in> set b. \<forall>(k2, v2) \<in> set b. k1 = k2 \<longrightarrow> v1 = v2"
    and mem: "(k, v) \<in> set b"
  shows "applyBatch b db k = Some v"
proof -
  from mem have "k \<in> fst ` set (rev b)" by force
  then obtain v' where v': "map_of (rev b) k = Some v'"
    by (cases "map_of (rev b) k") (auto simp: map_of_eq_None_iff)
  then have "(k, v') \<in> set b" by (auto dest: map_of_SomeD)
  with fn mem have "v' = v" by blast
  with v' show ?thesis by (simp add: applyBatch_map_of)
qed

lemma persistedBytes_all:
  "(\<And>r. r \<in> set rs \<Longrightarrow> db (ReceiptsPrefix @ TxHash r) = Some (f r)) \<Longrightarrow>
     persistedBytes db rs = Some (map f rs)"
  by (induction rs) auto

lemma savePublicReceipts_Inr:
  "savePublicReceipts x rs b saved = Inr (b', saved') \<Longrightarrow>
     \<exists>leaves. storageBytes x rs = Some leaves \<and> saved' = saved @ leaves
       \<and> b' = b @ zip (map (\<lambda>r. ReceiptsPrefix @ TxHash r) rs) leaves"
proof (induction rs arbitrary: b saved)
  case Nil
  then show ?case by simp
next
  case (Cons r rs)
  from Cons.prems obtain sb b1 where
    enc: "EncodeReceipt x r = Inr sb" and
    put: "batchPut x b (ReceiptsPrefix @ TxHash r) sb = Inr b1" and
    rest: "savePublicReceipts x rs b1 (saved @ [sb]) = Inr (b', saved')"
    by (auto split: sum.splits)
  from put have b1: "b1 = b @ [(ReceiptsPrefix @ TxHash r, sb)]"
    by (auto simp: batchPut_def split: option.splits)
  from Cons.IH [OF rest] obtain leaves where
    "storageBytes x rs = Some leaves" "saved' = (saved @ [sb]) @ leaves"
    "b' = b1 @ zip (map (\<lambda>r. ReceiptsPrefix @ TxHash r) rs) leaves"
    by blast
  with enc b1 show ?case by simp
qed

lemma savePrivateReceipts_Inr:
  "savePrivateReceipts x rs b = Inr b' \<Longrightarrow>
     \<exists>leaves. storageBytes x rs = Some leaves
       \<and> b' = b @ zip (map (\<lambda>r. ReceiptsPrefix @ TxHash r) rs) leaves"
proof (induction rs arbitrary: b)
  case Nil
  then show ?case by simp
next
  case (Cons r rs)
  from Cons.prems obtain sb b1 where
    enc: "EncodeReceipt x r = Inr sb" and
    put: "batchPut x b (ReceiptsPrefix @ TxHash r) sb = Inr b1" and
    rest: "savePrivateReceipts x rs b1 = Inr b'"
    by (auto split: sum.splits)
  from put have b1: "b1 = b @ [(ReceiptsPrefix @ TxHash r, sb)]"
    by (auto simp: batchPut_def split: option.splits)
  from Cons.IH [OF rest] obtain leaves where
    "storageBytes x rs = Some leaves"
    "b' = b1 @ zip (map (\<lambda>r. ReceiptsPrefix @ TxHash r) rs) leaves"
    by blast
  with enc b1 show ?case by simp
qed

lemma SaveReceipts_Inr:
  assumes "SaveReceipts x app = (Inr root, app')"
  shows "\<exists>pl ql. storageBytes x (publicReceipts app) = Some pl
           \<and> storageBytes x (privateReceipts app) = Some ql
           \<and> root = SimpleHashFromHashes x pl
           \<and> app' = app\<lparr>stateDb :=
                 applyBatch (zip (map (\<lambda>r. ReceiptsPrefix @ TxHash r)
                                   (publicReceipts app @ privateReceipts app)) (pl @ ql))
                   (stateDb app)\<rparr>"
proof -
  from assms obtain b saved b' db where
    pub: "savePublicReceipts x (publicReceipts app) [] [] = Inr (b, saved)" and
    priv: "savePrivateReceipts x (privateReceipts app) b = Inr b'" and
    wr: "batchWrite x b' (stateDb app) = Inr db" and
    root: "root = SimpleHashFromHashes x saved" and
    app': "app' = app\<lparr>stateDb := db\<rparr>"
    by (auto simp: SaveReceipts_def split: sum.splits prod.splits)
  from savePublicReceipts_Inr [OF pub] obtain pl where
    pl: "storageBytes x (publicReceipts app) = Some pl" "saved = pl"
      "b = zip (map (\<lambda>r. ReceiptsPrefix @ TxHash r) (publicReceipts app)) pl"
    by auto
  from savePrivateReceipts_Inr [OF priv] obtain ql where
    ql: "storageBytes x (privateReceipts app) = Some ql"
      "b' = b @ zip (map (\<lambda>r. ReceiptsPrefix @ TxHash r) (privateReceipts app)) ql"
    by auto
  have len: "length pl = length (publicReceipts app)"
    using pl(1) by (rule storageBytes_length)
  from wr have db: "db = applyBatch b' (stateDb app)"
    by (auto simp: batchWrite_def split: option.splits)
  show ?thesis
    using pl ql root app' db len by (simp add: zip_append)
qed


lemma SaveReceipts_persisted:
  assumes ok: "SaveReceipts x app = (Inr root, app')"
    and inj: "inj_on TxHash (set (publicReceipts app @ privateReceipts app))"
    and mem: "r \<in> set (publicReceipts app @ privateReceipts app)"
  shows "stateDb app' (ReceiptsPrefix @ TxHash r) = Some (storageForm x r)"
proof -
  let ?all = "publicReceipts app @ privateReceipts app"
  let ?b = "map (\<lambda>r. (ReceiptsPrefix @ TxHash r, storageForm x r)) ?all"
  from SaveReceipts_Inr [OF ok] obtain pl ql where
    pl: "storageBytes x (publicReceipts app) = Some pl" and
    ql: "storageBytes x (privateReceipts app) = Some ql" and
    app': "app' = app\<lparr>stateDb :=
             applyBatch (zip (map (\<lambda>r. ReceiptsPrefix @ TxHash r) ?all) (pl @ ql)) (stateDb app)\<rparr>"
    by blast
  have "pl @ ql = map (storageForm x) ?all"
    using storageBytes_append [OF pl ql] by (rule storageBytes_Some)
  then have b: "zip (map (\<lambda>r. ReceiptsPrefix @ TxHash r) ?all) (pl @ ql) = ?b"
    by (simp add: zip_map_map zip_same_conv_map)
  have fn: "\<forall>(k1, v1) \<in> set ?b. \<forall>(k2, v2) \<in> set ?b. k1 = k2 \<longrightarrow> v1 = v2"
    using inj by (auto dest: inj_onD)
  have "(ReceiptsPrefix @ TxHash r, storageForm x r) \<in> set ?b"
    using mem by auto
  then have "applyBatch ?b (stateDb app) (ReceiptsPrefix @ TxHash r) = Some (storageForm x r)"
    by (rule applyBatch_functional [OF fn])
  moreover have "stateDb app' = applyBatch ?b (stateDb app)"
    unfolding app' b [symmetric] by simp
  ultimately show ?thesis by (simp only:)
qed

text \<open>
  Claim C1, as amended. When \<open>SaveReceipts\<close> succeeds, the root it returns is the Merkle
  root over the serialised public receipts alone, in the order of the accumulator;
  the private receipts are persisted and are not part of the root. When the receipts
  of the block have distinct transaction hashes, the serialised public receipts read
  back from the store give the same root, and the serialised private receipts read
  back are the ones that were written.
\<close>

theorem SaveReceipts_root_public_only:
  assumes ok: "SaveReceipts x app = (Inr root, app')"
  shows "specReceiptsRoot x (publicReceipts app) [] = Some root
       \<and> (inj_on TxHash (set (publicReceipts app @ privateReceipts app)) \<longrightarrow>
            map_option (SimpleHashFromHashes x)
              (persistedBytes (stateDb app') (publicReceipts app)) = Some root
          \<and> persistedBytes (stateDb app') (privateReceipts app)
              = storageBytes x (privateReceipts app))"
proof (intro conjI impI)
  from SaveReceipts_Inr [OF ok] obtain pl ql where
    pl: "storageBytes x (publicReceipts app) = Some pl" and
    ql: "storageBytes x (privateReceipts app) = Some ql" and
    root: "root = SimpleHashFromHashes x pl"
    by blast
  show "specReceiptsRoot x (publicReceipts app) [] = Some root"
    by (simp add: specReceiptsRoot_def pl root)
  assume inj: "inj_on TxHash (set (publicReceipts app @ privateReceipts app))"
  have pl': "pl = map (storageForm x) (publicReceipts app)"
    using pl by (rule storageBytes_Some)
  have ql': "ql = map (storageForm x) (privateReceipts app)"
    using ql by (rule storageBytes_Some)
  have p: "persistedBytes (stateDb app') (publicReceipts app) = Some pl"
    unfolding pl' by (rule persistedBytes_all) (rule SaveReceipts_persisted [OF ok inj], simp)
  have q: "persistedBytes (stateDb app') (privateReceipts app) = Some ql"
    unfolding ql' by (rule persistedBytes_all) (rule SaveReceipts_persisted [OF ok inj], simp)
  show "map_option (SimpleHashFromHashes x)
          (persistedBytes (stateDb app') (publicReceipts app)) = Some root"
    by (simp add: p root)
  show "persistedBytes (stateDb app') (privateReceipts app)
          = storageBytes x (privateReceipts app)"
    by (simp add: q ql)
qed

text \<open>
  The amended statement of C1 at one public and one private receipt with distinct
  transaction hashes.
\<close>

theorem SaveReceipts_root_public_only_witness:
  "fst (SaveReceipts x0 appC1) = Inr [10, 21, 1]
   \<and> inj_on TxHash (set (publicReceipts appC1 @ privateReceipts appC1))
   \<and> specReceiptsRoot x0 (publicReceipts appC1) [] = Some [10, 21, 1]
   \<and> map_option (SimpleHashFromHashes x0)
        (persistedBytes (stateDb (snd (SaveReceipts x0 appC1))) (publicReceipts appC1))
       = Some [10, 21, 1]
   \<and> persistedBytes (stateDb (snd (SaveReceipts x0 appC1))) (privateReceipts appC1)
       = storageBytes x0 (privateReceipts appC1)"
proof -
  have ok: "SaveReceipts x0 appC1 = (Inr [10, 21, 1], snd (SaveReceipts x0 appC1))"
    by (simp add: SaveReceipts_def appC1_def app0_def x0_def receiptA_def receiptB_def
        batchPut_def batchWrite_def)
  have inj: "inj_on TxHash (set (publicReceipts appC1 @ privateReceipts appC1))"
    by (simp add: appC1_def app0_def receiptA_def receiptB_def)
  have f: "fst (SaveReceipts x0 appC1) = Inr [10, 21, 1]"
    by (subst ok) simp
  from SaveReceipts_root_public_only [OF ok] inj f show ?thesis
    by blast
qed

text \<open>
  Claim C1 as stated fails, in both of its parts. With one public and one private
  receipt, the root that \<open>SaveReceipts\<close> returns is the root over the public receipt;
  the root over the public receipt followed by the private receipt is another value.
  With a public and a private receipt that carry the same transaction hash, the
  private receipt is written last under the shared key, and the public receipts read
  back from the store give a root that is not the one returned. The instance takes
  concatenation for the Merkle function, which keeps the leaf sequences apart.
\<close>

theorem SaveReceipts_root_counterexample:
  "fst (SaveReceipts x0 appC1) = Inr [10, 21, 1]
   \<and> specReceiptsRoot x0 (publicReceipts appC1) (privateReceipts appC1)
       = Some [10, 21, 1, 11, 22, 1]
   \<and> map_option Inr (specReceiptsRoot x0 (publicReceipts appC1) (privateReceipts appC1))
       \<noteq> Some (fst (SaveReceipts x0 appC1))
   \<and> fst (SaveReceipts x0 appDup) = Inr [10, 21, 1]
   \<and> map_option (SimpleHashFromHashes x0)
        (persistedBytes (stateDb (snd (SaveReceipts x0 appDup))) (publicReceipts appDup))
       = Some [10, 22, 1]"
  by (simp add: SaveReceipts_def specReceiptsRoot_def appC1_def appDup_def app0_def x0_def
      receiptA_def receiptB_def batchPut_def batchWrite_def)

section \<open>Queries on malformed input\<close>


text \<open>
  Claim C9 says that the query entry point returns a typed failure for every input,
  the empty byte sequence included. On the empty byte sequence \<open>Query\<close> reads
  \<open>query[0]\<close> and panics; no result is returned.
\<close>

theorem Query_empty_panics:
  "Query x q app [] = Inl (Panic ''index out of range [0] with length 0'')"
  by (simp add: Query_def)

section \<open>Commit when the receipts cannot be saved\<close>

lemma SaveReceipts_error_cong:
  assumes "publicReceipts a = publicReceipts b" and "privateReceipts a = privateReceipts b"
    and "fst (SaveReceipts x a) = Inl e"
  shows "fst (SaveReceipts x b) = Inl e"
  using assms
  by (auto simp: SaveReceipts_def batchWrite_def split: sum.splits prod.splits option.splits)

lemma SaveReceipts_error_unchanged:
  "fst (SaveReceipts x a) = Inl e \<Longrightarrow> snd (SaveReceipts x a) = a"
  by (auto simp: SaveReceipts_def split: sum.splits prod.splits)

text \<open>
  Claim C10. When every step of \<open>OnCommit\<close> up to the swap of the confirmed states
  succeeds and \<open>SaveReceipts\<close> fails on the receipts of the block, \<open>OnCommit\<close> returns
  a successful commit result with the public root and an empty receipts hash, and both
  receipt accumulators are cleared: the failure is not surfaced.
\<close>

theorem OnCommit_SaveReceipts_error_logged:
  assumes "currentPublicState app = Some cps" and "StateCommit x cps = (Inr appHash, cps')"
    and "currentPrivateState app = Some cqs" and "StateCommit x cqs = (Inr privHash, cqs')"
    and "TrieCommit x cps' appHash (stateDb app) = (None, dbP)"
    and "TrieCommit x cqs' privHash dbP = (None, dbQ)"
    and "StateNew x appHash dbQ = (ps, None)"
    and "StateNew x privHash dbQ = (qs, None)"
    and sr: "fst (SaveReceipts x app) = Inl e"
  shows "fst (OnCommit x height round block app) = Inr \<lparr>CAppHash = appHash, ReceiptsHash = []\<rparr>
       \<and> publicReceipts (snd (OnCommit x height round block app)) = []
       \<and> privateReceipts (snd (OnCommit x height round block app)) = []"
proof -
  let ?app7 = "SaveLastBlock \<lparr>LHeight = height, AppHash = appHash, PrivHash = privHash\<rparr>
     (app\<lparr>currentPublicState := Some cps', currentPrivateState := Some cqs', stateDb := dbP,
          stateDb := dbQ, publicState := ps, privateState := qs\<rparr>)"
  have "fst (SaveReceipts x ?app7) = Inl e"
    by (rule SaveReceipts_error_cong [OF _ _ sr]) (simp_all add: SaveLastBlock_def)
  then obtain app8 where "SaveReceipts x ?app7 = (Inl e, app8)"
    by (cases "SaveReceipts x ?app7") simp
  with assms(1-8) show ?thesis
    by (simp add: OnCommit_def Let_def)
qed

text \<open>Claim C10 at an encoder that refuses the one receipt of the block.\<close>

theorem OnCommit_SaveReceipts_error_logged_witness:
  "fst (SaveReceipts xC10 appC10) = Inl (Err ''wrong rlp encode:rlp: unsupported'')
   \<and> fst (OnCommit xC10 1 0 block0 appC10) = Inr \<lparr>CAppHash = [0, 0], ReceiptsHash = []\<rparr>
   \<and> publicReceipts (snd (OnCommit xC10 1 0 block0 appC10)) = []
   \<and> privateReceipts (snd (OnCommit xC10 1 0 block0 appC10)) = []"
proof -
  have sr: "fst (SaveReceipts xC10 appC10) = Inl (Err ''wrong rlp encode:rlp: unsupported'')"
    by (simp add: SaveReceipts_def xC10_def appC10_def app0_def x0_def)
  have "fst (OnCommit xC10 1 0 block0 appC10) = Inr \<lparr>CAppHash = [0, 0], ReceiptsHash = []\<rparr>
       \<and> publicReceipts (snd (OnCommit xC10 1 0 block0 appC10)) = []
       \<and> privateReceipts (snd (OnCommit xC10 1 0 block0 appC10)) = []"
    by (rule OnCommit_SaveReceipts_error_logged
          [where cps = state0 and cqs = state0 and cps' = state0 and cqs' = state0
             and privHash = "[0, 0]" and ps = "Some (stateAt [0, 0])"
             and qs = "Some (stateAt [0, 0])" and dbP = Map.empty and dbQ = Map.empty, OF _ _ _ _ _ _ _ _ sr])
       (simp_all add: xC10_def appC10_def app0_def x0_def rootOf_def state0_def acct0_def)
  with sr show ?thesis by blast
qed


section \<open>One transaction: begin, execute, end\<close>


lemma runEvm_frame:
  assumes "runEvm x header gp blockHash txIdx txhash tx target c = (err, c1)"
  shows "revisions (publicState' c1) = revisions (publicState' c)
       \<and> revisions (privateState' c1) = revisions (privateState' c)
       \<and> publicSnapshot c1 = publicSnapshot c \<and> privateSnapshot c1 = privateSnapshot c
       \<and> publicReceipts' c1 = publicReceipts' c \<and> privateReceipts' c1 = privateReceipts' c
       \<and> res c1 = res c"
  using assms
  by (cases target)
     (auto simp: runEvm_def ApplyTransaction_def Prepare_def Let_def
           split: prod.splits sum.splits if_splits)

lemma execFunc_frame:
  assumes "execFunc x host header blockHash txIdx raw tx c = (err, c1)"
  shows "revisions (publicState' c1) = revisions (publicState' c)
       \<and> revisions (privateState' c1) = revisions (privateState' c)
       \<and> publicSnapshot c1 = publicSnapshot c \<and> privateSnapshot c1 = privateSnapshot c
       \<and> publicReceipts' c1 = publicReceipts' c \<and> privateReceipts' c1 = privateReceipts' c
       \<and> res c1 = res c"
proof (cases "EncodeTx x tx")
  case (Inl e)
  with assms show ?thesis by (auto simp: execFunc_def)
next
  case (Inr txBytes)
  let ?from = "fst (HomesteadSender x tx)"
  show ?thesis
  proof (cases "Protected tx")
    case True
    show ?thesis
    proof (cases "length host > 0")
      case True
      with assms Inr \<open>Protected tx\<close> have
        "runEvm x header MaxBig256_Uint64 blockHash txIdx (HashRaw x txBytes) tx Private
           (c\<lparr>publicState' := SetNonce ?from (GetNonce (publicState' c) ?from + 1) (publicState' c)\<rparr>)
         = (err, c1)"
        by (simp add: execFunc_def Let_def)
      from runEvm_frame [OF this] show ?thesis by (simp add: SetNonce_def)
    next
      case False
      with assms Inr \<open>Protected tx\<close> show ?thesis
        by (auto simp: execFunc_def Let_def SetNonce_def Prepare_def)
    qed
  next
    case False
    with assms Inr have
      "runEvm x header MaxBig256_Uint64 blockHash txIdx (HashRaw x txBytes) tx Public
         (c\<lparr>privateState' := SetNonce ?from (GetNonce (privateState' c) ?from + 1) (privateState' c)\<rparr>)
       = (err, c1)"
      by (simp add: execFunc_def Let_def)
    from runEvm_frame [OF this] show ?thesis by (simp add: SetNonce_def)
  qed
qed

lemma beginExec_simps:
  "accounts (publicState' (beginExec c)) = accounts (publicState' c)"
  "accounts (privateState' (beginExec c)) = accounts (privateState' c)"
  "revisions (publicState' (beginExec c)) = revisions (publicState' c) @ [accounts (publicState' c)]"
  "revisions (privateState' (beginExec c)) = revisions (privateState' c) @ [accounts (privateState' c)]"
  "publicSnapshot (beginExec c) = length (revisions (publicState' c))"
  "privateSnapshot (beginExec c) = length (revisions (privateState' c))"
  "publicReceipts' (beginExec c) = publicReceipts' c"
  "privateReceipts' (beginExec c) = privateReceipts' c"
  "temPublicReceipt (beginExec c) = []"
  "temPrivateReceipt (beginExec c) = []"
  "res (beginExec c) = res c"
  by (simp_all add: beginExec_def Snapshot_def)

text \<open>
  Claim C4. When \<open>execFunc\<close> fails on a transaction, \<open>endFunc\<close> reverts both
  in-progress states to the snapshots taken at the begin of the transaction: the
  accounts of both ledgers (nonces included) and the live markers are what they were
  before the transaction. The raw transaction is appended to the invalid set together
  with its error, the valid set and both receipt accumulators are unchanged, and
  \<open>endFunc\<close> returns \<open>true\<close>, on which the loop goes on to the next transaction.
  The correlation context set by \<open>Prepare\<close> is not ledger state and is not restored.
\<close>

theorem failed_tx_reverts_both_ledgers:
  assumes ex: "execFunc x host header blockHash txIdx raw tx (beginExec c) = (Some e, c1)"
  shows "\<exists>c2. endFunc raw (Some e) c1 = Inr (True, c2)
       \<and> accounts (publicState' c2) = accounts (publicState' c)
       \<and> revisions (publicState' c2) = revisions (publicState' c)
       \<and> accounts (privateState' c2) = accounts (privateState' c)
       \<and> revisions (privateState' c2) = revisions (privateState' c)
       \<and> InvalidTxs (res c2) = InvalidTxs (res c) @ [(raw, e)]
       \<and> ValidTxs (res c2) = ValidTxs (res c)
       \<and> publicReceipts' c2 = publicReceipts' c
       \<and> privateReceipts' c2 = privateReceipts' c"
proof -
  from execFunc_frame [OF ex] have fr:
    "revisions (publicState' c1) = revisions (publicState' c) @ [accounts (publicState' c)]"
    "revisions (privateState' c1) = revisions (privateState' c) @ [accounts (privateState' c)]"
    "publicSnapshot c1 = length (revisions (publicState' c))"
    "privateSnapshot c1 = length (revisions (privateState' c))"
    "publicReceipts' c1 = publicReceipts' c" "privateReceipts' c1 = privateReceipts' c"
    "res c1 = res c"
    by (simp_all add: beginExec_simps)
  show ?thesis
    by (simp add: endFunc_def RevertToSnapshot_def fr)
qed


text \<open>
  Claim C4 at a transaction that the executor rejects after it has changed the balance
  of the sender on the public ledger, the private nonce having been raised before.
\<close>

theorem failed_tx_reverts_both_ledgers_witness:
  "execFunc x0 [] header0 [9] 0 [255] (txOf [255]) (beginExec closure0)
     = (Some (Err ''execution reverted''), c1C4)
   \<and> balance (accounts (publicState' c1C4) [1]) = 7
   \<and> nonce (accounts (privateState' c1C4) [1]) = 1
   \<and> (\<exists>c2. endFunc [255] (Some (Err ''execution reverted'')) c1C4 = Inr (True, c2)
       \<and> accounts (publicState' c2) = accounts (publicState' closure0)
       \<and> revisions (publicState' c2) = revisions (publicState' closure0)
       \<and> accounts (privateState' c2) = accounts (privateState' closure0)
       \<and> revisions (privateState' c2) = revisions (privateState' closure0)
       \<and> InvalidTxs (res c2) = InvalidTxs (res closure0) @ [([255], Err ''execution reverted'')]
       \<and> ValidTxs (res c2) = ValidTxs (res closure0)
       \<and> publicReceipts' c2 = publicReceipts' closure0
       \<and> privateReceipts' c2 = privateReceipts' closure0)"
proof -
  have ex: "execFunc x0 [] header0 [9] 0 [255] (txOf [255]) (beginExec closure0)
              = (Some (Err ''execution reverted''), c1C4)"
    by (simp add: c1C4_def execFunc_def runEvm_def ApplyTransaction_def x0_def txOf_def Let_def)
  have b: "balance (accounts (publicState' c1C4) [1]) = 7"
    by (simp add: c1C4_def execFunc_def runEvm_def ApplyTransaction_def x0_def txOf_def Let_def
        Prepare_def SetNonce_def)
  have n: "nonce (accounts (privateState' c1C4) [1]) = 1"
    by (simp add: c1C4_def execFunc_def runEvm_def ApplyTransaction_def x0_def txOf_def Let_def
        Prepare_def SetNonce_def GetNonce_def beginExec_simps closure0_def state0_def acct0_def)
  from failed_tx_reverts_both_ledgers [OF ex] ex b n show ?thesis
    by blast
qed

text \<open>
  Claim C5 says that the nonce of the sender rises by one on both ledgers for every
  transaction that is processed with success. \<open>execFunc\<close> raises, on the ledger that
  does not execute, the nonce of the address \<open>from\<close> that \<open>app.publicSigner\<close> recovers.
  Take a protected transaction on a node with a secure channel, whose sender is
  account \<open>[2]\<close> under the private scheme (what \<open>Sender\<close> returns) and account \<open>[1]\<close>
  under the public scheme, and an executor that raises the nonce of the sender of the
  transaction. The transaction is processed with success and is reported valid; the
  nonce of the sender \<open>[2]\<close> rises on the private ledger and stays 0 on the public
  ledger, and the nonce that rises on the public ledger is that of account \<open>[1]\<close>.
\<close>

theorem execFunc_protected_nonce_not_mirrored:
  "Protected (txOf [1])
   \<and> Sender xC5 (txOf [1]) = ([2], None)
   \<and> execFunc xC5 ''sec'' header0 [9] 0 [1] (txOf [1]) (beginExec closure0) = (None, c1C5)
   \<and> endFunc [1] None c1C5
       = Inr (True, c1C5\<lparr>privateReceipts' := [\<lparr>TxHash = [1], GasUsed = 21, Status = 1\<rparr>],
                         publicReceipts' := [],
                         res := \<lparr>ValidTxs = [ [1] ], InvalidTxs = []\<rparr>\<rparr>)
   \<and> GetNonce (publicState' closure0) [2] = 0
   \<and> GetNonce (privateState' closure0) [2] = 0
   \<and> GetNonce (publicState' c1C5) [2] = 0
   \<and> GetNonce (privateState' c1C5) [2] = 1
   \<and> GetNonce (publicState' closure0) [1] = 0
   \<and> GetNonce (privateState' closure0) [1] = 0
   \<and> GetNonce (publicState' c1C5) [1] = 1
   \<and> GetNonce (privateState' c1C5) [1] = 0"
  by (simp add: c1C5_def xC5_def execFunc_def runEvm_def ApplyTransaction_def endFunc_def
      Sender_def x0_def txOf_def Let_def SetNonce_def GetNonce_def Prepare_def beginExec_simps
      closure0_def state0_def acct0_def)

text \<open>
  Claim C6 says that for a protected transaction on a node without a secure channel
  the transaction is not executed, the nonce of the sender is raised on both ledgers
  and one receipt with gas used 0 and status 1 is appended to the public accumulator.
  For a protected transaction whose sender is account \<open>[2]\<close> under the private scheme
  and account \<open>[1]\<close> under the public scheme, \<open>execFunc\<close> succeeds, the one receipt is
  appended to the public accumulator and the transaction is reported valid, but the
  nonce of the sender \<open>[2]\<close> stays 0 on both ledgers: the nonce that is raised is that
  of the address \<open>from\<close> recovered with \<open>app.publicSigner\<close>.
\<close>

theorem execFunc_no_channel_sender_nonce_unchanged:
  "Protected (txOf [1])
   \<and> Sender x0 (txOf [1]) = ([2], None)
   \<and> execFunc x0 [] header0 [9] 0 [1] (txOf [1]) (beginExec closure0) = (None, c1C6)
   \<and> endFunc [1] None c1C6
       = Inr (True, c1C6\<lparr>privateReceipts' := [],
                         publicReceipts' := [\<lparr>TxHash = [1], GasUsed = 0, Status = 1\<rparr>],
                         res := \<lparr>ValidTxs = [ [1] ], InvalidTxs = []\<rparr>\<rparr>)
   \<and> GetNonce (publicState' closure0) [2] = 0
   \<and> GetNonce (privateState' closure0) [2] = 0
   \<and> GetNonce (publicState' c1C6) [2] = 0
   \<and> GetNonce (privateState' c1C6) [2] = 0"
  by (simp add: c1C6_def execFunc_def endFunc_def makePublicPayloadHashReceipt_def
      Sender_def x0_def txOf_def Let_def SetNonce_def GetNonce_def Prepare_def beginExec_simps
      closure0_def state0_def acct0_def)

text \<open>
  Claim C7 says that the sender of a protected transaction is recovered with the
  private scheme. \<open>execFunc\<close> recovers \<open>from\<close> with \<open>app.publicSigner\<close> whatever the flag
  is. For a protected transaction whose sender is account \<open>[2]\<close> under the private
  scheme (what \<open>Sender\<close> returns) and account \<open>[1]\<close> under the public scheme, the nonce
  that is raised on both ledgers is that of account \<open>[1]\<close>; the nonce of account \<open>[2]\<close>
  stays 0.
\<close>

theorem execFunc_protected_sender_public_scheme:
  "Protected (txOf [1])
   \<and> Sender x0 (txOf [1]) = ([2], None)
   \<and> fst (execFunc x0 [] header0 [9] 0 [1] (txOf [1]) (beginExec closure0)) = None
   \<and> GetNonce (publicState' (snd (execFunc x0 [] header0 [9] 0 [1] (txOf [1])
                                     (beginExec closure0)))) [2] = 0
   \<and> GetNonce (privateState' (snd (execFunc x0 [] header0 [9] 0 [1] (txOf [1])
                                      (beginExec closure0)))) [2] = 0
   \<and> GetNonce (publicState' (snd (execFunc x0 [] header0 [9] 0 [1] (txOf [1])
                                     (beginExec closure0)))) [1] = 1
   \<and> GetNonce (privateState' (snd (execFunc x0 [] header0 [9] 0 [1] (txOf [1])
                                      (beginExec closure0)))) [1] = 1"
  by (simp add: execFunc_def Sender_def x0_def txOf_def Let_def SetNonce_def GetNonce_def
      Prepare_def beginExec_simps closure0_def state0_def acct0_def)


section \<open>Admission\<close>


lemma Cost_Data: "Cost (tx\<lparr>Data := d\<rparr>) = Cost tx"
  by (simp add: Cost_def)

lemma checkNonceAndFunds_rejects:
  assumes "Nonce tx < GetNonce js from \<or> GetBalance js from < Cost tx"
  shows "\<exists>m. checkNonceAndFunds x tx from (Some js) = Inl (Err m)"
  using assms by (auto simp: checkNonceAndFunds_def)

lemma checkNonceAndFunds_Inr:
  "checkNonceAndFunds x tx from js = Inr out \<Longrightarrow> EncodeTx x tx = Inr out"
  by (auto simp: checkNonceAndFunds_def split: option.splits if_splits sum.splits)

text \<open>
  Claim C8. For raw bytes that decode to a transaction, with the confirmed state of
  the target ledger open: when the nonce of the transaction is strictly less than the
  confirmed nonce of the sender (recovered with the scheme of the target ledger), or
  the confirmed balance of the sender is less than value + gas * gasPrice, \<open>CheckTx\<close>
  returns an error. \<open>CheckTx\<close> leaves the application, and so the confirmed state,
  as it was, whatever it returns. When it returns bytes, they are the encoding of the
  transaction, for a protected transaction with its payload replaced by the reference
  that the secure channel returned.
\<close>

theorem CheckTx_admission_gating:
  assumes dec: "DecodeTx x bs = Inr tx"
    and st: "(if Protected tx then privateState app else publicState app) = Some js"
  shows "(Nonce tx < GetNonce js (fst (Sender x tx))
            \<or> GetBalance js (fst (Sender x tx)) < Value tx + uint (Gas tx) * GasPrice tx
          \<longrightarrow> (\<exists>m. fst (CheckTx x bs app) = Inl (Err m)))
       \<and> snd (CheckTx x bs app) = app
       \<and> (\<forall>out. fst (CheckTx x bs app) = Inr out \<longrightarrow>
            (if Protected tx
             then \<exists>privateMembers payload payloadHash.
                    DecodePayload x (Data tx) = Inr (privateMembers, payload)
                  \<and> SendPayload x privateMembers payload = Inr payloadHash
                  \<and> EncodeTx x (tx\<lparr>Data := payloadHash\<rparr>) = Inr out
             else EncodeTx x tx = Inr out))"
proof (intro conjI allI impI)
  assume low: "Nonce tx < GetNonce js (fst (Sender x tx))
            \<or> GetBalance js (fst (Sender x tx)) < Value tx + uint (Gas tx) * GasPrice tx"
  then have low': "\<And>d. Nonce (tx\<lparr>Data := d\<rparr>) < GetNonce js (fst (Sender x tx))
            \<or> GetBalance js (fst (Sender x tx)) < Cost (tx\<lparr>Data := d\<rparr>)"
    by (simp add: Cost_def mult.commute)
  show "\<exists>m. fst (CheckTx x bs app) = Inl (Err m)"
  proof (cases "Protected tx")
    case True
    with st have p: "privateState app = Some js" by simp
    from True have s: "fst (AnnsteadSender x tx) = fst (Sender x tx)" by (simp add: Sender_def)
    show ?thesis
      using checkNonceAndFunds_rejects [where x = x, OF low']
      by (auto simp: CheckTx_def dec True p s Let_def split: sum.splits prod.splits)
  next
    case False
    with st have p: "publicState app = Some js" by simp
    from False have s: "fst (HomesteadSender x tx) = fst (Sender x tx)" by (simp add: Sender_def)
    from low' [of "Data tx"] have "Nonce tx < GetNonce js (fst (Sender x tx))
            \<or> GetBalance js (fst (Sender x tx)) < Cost tx" by simp
    from checkNonceAndFunds_rejects [where x = x, OF this] show ?thesis
      by (simp add: CheckTx_def dec False p s Let_def)
  qed
next
  show "snd (CheckTx x bs app) = app"
    by (auto simp: CheckTx_def Let_def split: sum.splits prod.splits)
next
  fix out
  assume "fst (CheckTx x bs app) = Inr out"
  then show "if Protected tx
             then \<exists>privateMembers payload payloadHash.
                    DecodePayload x (Data tx) = Inr (privateMembers, payload)
                  \<and> SendPayload x privateMembers payload = Inr payloadHash
                  \<and> EncodeTx x (tx\<lparr>Data := payloadHash\<rparr>) = Inr out
             else EncodeTx x tx = Inr out"
    by (auto simp: CheckTx_def dec Let_def dest: checkNonceAndFunds_Inr
             split: sum.splits prod.splits if_splits)
qed


text \<open>
  Claim C8 at a public transaction with nonce 0 and cost 5: rejected when the confirmed
  nonce of the sender is 5, admitted and re-encoded when it is 0.
\<close>

theorem CheckTx_admission_gating_witness:
  "DecodeTx x0 [7] = Inr (txOf [7])
   \<and> Nonce (txOf [7]) < GetNonce stateLow (fst (Sender x0 (txOf [7])))
   \<and> (\<exists>m. fst (CheckTx x0 [7] appLow) = Inl (Err m))
   \<and> snd (CheckTx x0 [7] appLow) = appLow
   \<and> fst (CheckTx x0 [7] appRich) = Inr [7]
   \<and> EncodeTx x0 (txOf [7]) = Inr [7]
   \<and> snd (CheckTx x0 [7] appRich) = appRich"
proof -
  have dec: "DecodeTx x0 [7] = Inr (txOf [7])" by (simp add: x0_def)
  have lo: "(if Protected (txOf [7]) then privateState appLow else publicState appLow)
              = Some stateLow"
    by (simp add: txOf_def appLow_def)
  have ri: "(if Protected (txOf [7]) then privateState appRich else publicState appRich)
              = Some stateRich"
    by (simp add: txOf_def appRich_def)
  have n: "Nonce (txOf [7]) < GetNonce stateLow (fst (Sender x0 (txOf [7])))"
    by (simp add: txOf_def GetNonce_def stateLow_def state0_def acct0_def)
  have ok: "fst (CheckTx x0 [7] appRich) = Inr [7]"
    by (simp add: CheckTx_def checkNonceAndFunds_def x0_def txOf_def appRich_def app0_def
        stateRich_def state0_def acct0_def GetNonce_def GetBalance_def Cost_def Let_def)
  have np: "\<not> Protected (txOf [7])" by (simp add: txOf_def)
  from CheckTx_admission_gating [OF dec lo] n
  have "(\<exists>m. fst (CheckTx x0 [7] appLow) = Inl (Err m)) \<and> snd (CheckTx x0 [7] appLow) = appLow"
    by blast
  moreover from CheckTx_admission_gating [OF dec ri] ok np
  have "EncodeTx x0 (txOf [7]) = Inr [7] \<and> snd (CheckTx x0 [7] appRich) = appRich"
    by simp
  ultimately show ?thesis using dec n ok by blast
qed

section \<open>Commit when a state cannot be reopened\<close>

text \<open>
  Claim C2 says that either both confirmed states are swapped or neither changes.
  \<open>OnCommit\<close> stores the handle returned by each \<open>estate.New\<close> before it looks at the
  error. When the public state opens and the private state does not, \<open>OnCommit\<close>
  returns the error with the confirmed public state already replaced (the nonce of
  account \<open>[1]\<close> read from it has changed from 0 to 1), the confirmed private state
  \<open>nil\<close>, and the last-block record not written.
\<close>

theorem OnCommit_partial_swap:
  "fst (OnCommit xC2 1 0 block0 appC2)
     = Inl (Err ''create private StateDB failed: missing trie node'')
   \<and> map_option (\<lambda>s. GetNonce s [1]) (publicState appC2) = Some 0
   \<and> map_option (\<lambda>s. GetNonce s [1]) (publicState (snd (OnCommit xC2 1 0 block0 appC2))) = Some 1
   \<and> privateState appC2 = Some state0
   \<and> privateState (snd (OnCommit xC2 1 0 block0 appC2)) = None
   \<and> lastBlock (snd (OnCommit xC2 1 0 block0 appC2)) = lastBlock appC2"
  by (simp add: OnCommit_def xC2_def appC2_def app0_def x0_def rootOf_def stateAt_def
      state0_def acct0_def GetNonce_def Let_def)


section \<open>Determinism of a block\<close>


lemma SaveReceipts_fst_cong:
  assumes "publicReceipts a = publicReceipts b" and "privateReceipts a = privateReceipts b"
  shows "fst (SaveReceipts x a) = fst (SaveReceipts x b)"
  using assms
  by (auto simp: SaveReceipts_def batchWrite_def split: sum.splits prod.splits option.splits)

lemma SaveReceipts_lastBlock: "lastBlock (snd (SaveReceipts x a)) = lastBlock a"
  by (auto simp: SaveReceipts_def split: sum.splits prod.splits)

lemma OnExecute_same:
  assumes same: "sameBlockInputs a b"
  shows "fst (OnExecute x height round block a) = fst (OnExecute x height round block b)
       \<and> sameBlockInputs (snd (OnExecute x height round block a))
                          (snd (OnExecute x height round block b))
       \<and> (\<forall>res. fst (OnExecute x height round block a) = Inr res \<longrightarrow>
            currentPublicState (snd (OnExecute x height round block a))
              = currentPublicState (snd (OnExecute x height round block b))
          \<and> currentPrivateState (snd (OnExecute x height round block a))
              = currentPrivateState (snd (OnExecute x height round block b)))"
proof -
  from same have eq: "secChanHost b = secChanHost a" "stateDb b = stateDb a"
    "lastBlock b = lastBlock a" "publicReceipts b = publicReceipts a"
    "privateReceipts b = privateReceipts a"
    by (simp_all add: sameBlockInputs_def)
  obtain pubHash privHash where h: "getLastAppHash x a = (pubHash, privHash)"
    by (cases "getLastAppHash x a")
  have h': "getLastAppHash x b = (pubHash, privHash)"
    using h by (simp add: getLastAppHash_def eq)
  obtain ps perr where p: "StateNew x pubHash (stateDb a) = (ps, perr)"
    by (cases "StateNew x pubHash (stateDb a)")
  obtain qs qerr where q: "StateNew x privHash (stateDb a) = (qs, qerr)"
    by (cases "StateNew x privHash (stateDb a)")
  show ?thesis
  proof (cases perr)
    case (Some e)
    then show ?thesis
      by (simp add: OnExecute_def h h' p eq sameBlockInputs_def)
  next
    case None
    note pn = this
    show ?thesis
    proof (cases qerr)
      case (Some e)
      then show ?thesis
        by (simp add: OnExecute_def h h' p q pn eq sameBlockInputs_def)
    next
      case None
      note qn = this
      show ?thesis
      proof (cases "Txs block = []")
        case True
        then show ?thesis
          by (simp add: OnExecute_def h h' p q pn qn eq sameBlockInputs_def Let_def)
      next
        case False
        note ne = this
        show ?thesis
        proof (cases ps)
          case None
          then show ?thesis
            by (simp add: OnExecute_def h h' p q pn qn ne eq sameBlockInputs_def Let_def)
        next
          case (Some s)
          note ps = this
          show ?thesis
          proof (cases qs)
            case None
            then show ?thesis
              by (simp add: OnExecute_def h h' p q pn qn ne ps eq sameBlockInputs_def Let_def)
          next
            case (Some t)
            note qs = this
            let ?run = "exeWithCPUParallelVeirfy x (secChanHost a) (makeCurrentHeader x block)
                          (BytesToHash x (BlockHash block)) 0 (Txs block)
                          \<lparr>publicState' = s, privateState' = t,
                           publicSnapshot = 0, privateSnapshot = 0,
                           temPublicReceipt = [], temPrivateReceipt = [],
                           publicReceipts' = publicReceipts a,
                           privateReceipts' = privateReceipts a,
                           res = \<lparr>ValidTxs = [], InvalidTxs = []\<rparr>\<rparr>"
            show ?thesis
            proof (cases ?run)
              case (Inl pn')
              then show ?thesis
                by (simp add: OnExecute_def h h' p q pn qn ne ps qs eq sameBlockInputs_def Let_def)
            next
              case (Inr c)
              then show ?thesis
                by (simp add: OnExecute_def h h' p q pn qn ne ps qs eq sameBlockInputs_def Let_def)
            qed
          qed
        qed
      qed
    qed
  qed
qed


lemma OnCommit_same:
  assumes same: "sameBlockInputs a b"
    and cur: "currentPublicState a = currentPublicState b"
             "currentPrivateState a = currentPrivateState b"
  shows "fst (OnCommit x height round block a) = fst (OnCommit x height round block b)
       \<and> lastBlock (snd (OnCommit x height round block a))
           = lastBlock (snd (OnCommit x height round block b))"
proof -
  from same cur have eq: "secChanHost b = secChanHost a" "stateDb b = stateDb a"
    "lastBlock b = lastBlock a" "publicReceipts b = publicReceipts a"
    "privateReceipts b = privateReceipts a"
    "currentPublicState b = currentPublicState a"
    "currentPrivateState b = currentPrivateState a"
    by (simp_all add: sameBlockInputs_def)
  show ?thesis
  proof (cases "currentPublicState a")
    case None
    then show ?thesis by (simp add: OnCommit_def eq)
  next
    case (Some cps)
    note cp = this
    obtain r cps' where c1: "StateCommit x cps = (r, cps')" by (cases "StateCommit x cps")
    show ?thesis
    proof (cases r)
      case (Inl e)
      then show ?thesis by (simp add: OnCommit_def eq cp c1)
    next
      case (Inr appHash)
      note r = this
      show ?thesis
      proof (cases "currentPrivateState a")
        case None
        then show ?thesis by (simp add: OnCommit_def eq cp c1 r)
      next
        case (Some cqs)
        note cq = this
        obtain r' cqs' where c2: "StateCommit x cqs = (r', cqs')" by (cases "StateCommit x cqs")
        show ?thesis
        proof (cases r')
          case (Inl e)
          then show ?thesis by (simp add: OnCommit_def eq cp c1 r cq c2)
        next
          case (Inr privHash)
          note r' = this
          obtain e1 dbP where t1: "TrieCommit x cps' appHash (stateDb a) = (e1, dbP)"
            by (cases "TrieCommit x cps' appHash (stateDb a)")
          obtain e2 dbQ where t2: "TrieCommit x cqs' privHash dbP = (e2, dbQ)"
            by (cases "TrieCommit x cqs' privHash dbP")
          obtain ps perr where n1: "StateNew x appHash dbQ = (ps, perr)"
            by (cases "StateNew x appHash dbQ")
          obtain qs qerr where n2: "StateNew x privHash dbQ = (qs, qerr)"
            by (cases "StateNew x privHash dbQ")
          note steps = OnCommit_def eq cp c1 r cq c2 r' t1
          show ?thesis
          proof (cases e1)
            case (Some e)
            then show ?thesis by (simp add: steps)
          next
            case None
            note e1 = this
            show ?thesis
            proof (cases e2)
              case (Some e)
              then show ?thesis by (simp add: steps e1 t2)
            next
              case None
              note e2 = this
              show ?thesis
              proof (cases perr)
                case (Some e)
                then show ?thesis by (simp add: steps e1 t2 e2 n1)
              next
                case None
                note perr = this
                show ?thesis
                proof (cases qerr)
                  case (Some e)
                  then show ?thesis by (simp add: steps e1 t2 e2 n1 perr n2)
                next
                  case None
                  note qerr = this
                  let ?lb = "\<lparr>LHeight = height, AppHash = appHash, PrivHash = privHash\<rparr>"
                  let ?a7 = "SaveLastBlock ?lb
                     (a\<lparr>currentPublicState := Some cps', currentPrivateState := Some cqs',
                        stateDb := dbP, stateDb := dbQ, publicState := ps, privateState := qs\<rparr>)"
                  let ?b7 = "SaveLastBlock ?lb
                     (b\<lparr>currentPublicState := Some cps', currentPrivateState := Some cqs',
                        stateDb := dbP, stateDb := dbQ, publicState := ps, privateState := qs\<rparr>)"
                  have f: "fst (SaveReceipts x ?a7) = fst (SaveReceipts x ?b7)"
                    by (rule SaveReceipts_fst_cong) (simp_all add: SaveLastBlock_def eq)
                  have la: "lastBlock (snd (SaveReceipts x ?a7)) = Some ?lb"
                    by (simp add: SaveReceipts_lastBlock) (simp add: SaveLastBlock_def)
                  have lb: "lastBlock (snd (SaveReceipts x ?b7)) = Some ?lb"
                    by (simp add: SaveReceipts_lastBlock) (simp add: SaveLastBlock_def)
                  obtain sa a8 where sa: "SaveReceipts x ?a7 = (sa, a8)"
                    by (cases "SaveReceipts x ?a7")
                  obtain sb b8 where sb: "SaveReceipts x ?b7 = (sb, b8)"
                    by (cases "SaveReceipts x ?b7")
                  from f la lb sa sb have "sa = sb" "lastBlock a8 = lastBlock b8" by simp_all
                  with sa sb show ?thesis
                    by (simp add: steps e1 t2 e2 n1 perr n2 qerr Let_def)
                qed
              qed
            qed
          qed
        qed
      qed
    qed
  qed
qed



lemma beginExec_earlier:
  "beginExec (withEarlierReceipts P Q c) = withEarlierReceipts P Q (beginExec c)"
  by (simp add: beginExec_def withEarlierReceipts_def Snapshot_def)

lemma runEvm_earlier:
  "runEvm x header gp blockHash txIdx txhash tx target (withEarlierReceipts P Q c)
     = (case runEvm x header gp blockHash txIdx txhash tx target c of
          (err, c1) \<Rightarrow> (err, withEarlierReceipts P Q c1))"
  by (cases target)
     (simp_all add: runEvm_def withEarlierReceipts_def Let_def split: prod.splits sum.splits)

lemma execFunc_earlier:
  "execFunc x host header blockHash txIdx raw tx (withEarlierReceipts P Q c)
     = (case execFunc x host header blockHash txIdx raw tx c of
          (err, c1) \<Rightarrow> (err, withEarlierReceipts P Q c1))"
proof -
  have a: "(withEarlierReceipts P Q c)\<lparr>publicState' := s\<rparr>
             = withEarlierReceipts P Q (c\<lparr>publicState' := s\<rparr>)" for s
    by (simp add: withEarlierReceipts_def)
  have b: "(withEarlierReceipts P Q c)\<lparr>privateState' := s\<rparr>
             = withEarlierReceipts P Q (c\<lparr>privateState' := s\<rparr>)" for s
    by (simp add: withEarlierReceipts_def)
  have s: "publicState' (withEarlierReceipts P Q c) = publicState' c"
    "privateState' (withEarlierReceipts P Q c) = privateState' c"
    by (simp_all add: withEarlierReceipts_def)
  show ?thesis
  proof (cases "EncodeTx x tx")
    case (Inl e)
    then show ?thesis by (simp add: execFunc_def)
  next
    case (Inr txBytes)
    show ?thesis
    proof (cases "Protected tx")
      case True
      show ?thesis
      proof (cases "length host > 0")
        case True
        with Inr \<open>Protected tx\<close> show ?thesis
          by (simp add: execFunc_def Let_def s a runEvm_earlier)
      next
        case False
        with Inr \<open>Protected tx\<close> show ?thesis
          by (simp add: execFunc_def Let_def s) (simp add: withEarlierReceipts_def)
      qed
    next
      case False
      with Inr show ?thesis
        by (simp add: execFunc_def Let_def s b runEvm_earlier)
    qed
  qed
qed

lemma endFunc_earlier:
  "endFunc raw err (withEarlierReceipts P Q c)
     = (case endFunc raw err c of
          Inl p \<Rightarrow> Inl p
        | Inr (continue, c') \<Rightarrow> Inr (continue, withEarlierReceipts P Q c'))"
  by (simp add: endFunc_def withEarlierReceipts_def split: option.splits sum.splits)

lemma oneTx_earlier:
  "oneTx x host header blockHash i raw (withEarlierReceipts P Q c)
     = (case oneTx x host header blockHash i raw c of
          Inl p \<Rightarrow> Inl p
        | Inr (continue, c') \<Rightarrow> Inr (continue, withEarlierReceipts P Q c'))"
  by (simp add: oneTx_def beginExec_earlier execFunc_earlier endFunc_earlier Let_def
           split: sum.splits option.splits prod.splits)

lemma exeWithCPUParallelVeirfy_earlier:
  "exeWithCPUParallelVeirfy x host header blockHash i txs (withEarlierReceipts P Q c)
     = (case exeWithCPUParallelVeirfy x host header blockHash i txs c of
          Inl p \<Rightarrow> Inl p
        | Inr c' \<Rightarrow> Inr (withEarlierReceipts P Q c'))"
proof (induction txs arbitrary: i c)
  case Nil
  show ?case by simp
next
  case (Cons raw txs)
  show ?case
    by (simp add: oneTx_earlier Cons.IH split: sum.splits prod.splits)
qed


lemma OnExecute_accumulators:
  "fst (OnExecute x height round block a)
     = fst (OnExecute x height round block (a\<lparr>publicReceipts := [], privateReceipts := []\<rparr>))
   \<and> snd (OnExecute x height round block a)
     = (snd (OnExecute x height round block (a\<lparr>publicReceipts := [], privateReceipts := []\<rparr>)))
         \<lparr>publicReceipts :=
            publicReceipts a @ publicReceipts (snd (OnExecute x height round block
                                (a\<lparr>publicReceipts := [], privateReceipts := []\<rparr>))),
          privateReceipts :=
            privateReceipts a @ privateReceipts (snd (OnExecute x height round block
                                (a\<lparr>publicReceipts := [], privateReceipts := []\<rparr>)))\<rparr>"
proof -
  let ?a0 = "a\<lparr>publicReceipts := [], privateReceipts := []\<rparr>"
  obtain pubHash privHash where h: "getLastAppHash x a = (pubHash, privHash)"
    by (cases "getLastAppHash x a")
  have h': "getLastAppHash x ?a0 = (pubHash, privHash)"
    using h by (simp add: getLastAppHash_def)
  obtain ps perr where p: "StateNew x pubHash (stateDb a) = (ps, perr)"
    by (cases "StateNew x pubHash (stateDb a)")
  obtain qs qerr where q: "StateNew x privHash (stateDb a) = (qs, qerr)"
    by (cases "StateNew x privHash (stateDb a)")
  show ?thesis
  proof (cases perr)
    case (Some e)
    then show ?thesis by (simp add: OnExecute_def h h' p)
  next
    case None
    note pn = this
    show ?thesis
    proof (cases qerr)
      case (Some e)
      then show ?thesis by (simp add: OnExecute_def h h' p q pn)
    next
      case None
      note qn = this
      show ?thesis
      proof (cases "Txs block = []")
        case True
        then show ?thesis by (simp add: OnExecute_def h h' p q pn qn Let_def)
      next
        case False
        note ne = this
        show ?thesis
        proof (cases ps)
          case None
          then show ?thesis by (simp add: OnExecute_def h h' p q pn qn ne Let_def)
        next
          case (Some s)
          note ps = this
          show ?thesis
          proof (cases qs)
            case None
            then show ?thesis by (simp add: OnExecute_def h h' p q pn qn ne ps Let_def)
          next
            case (Some t)
            note qs = this
            let ?c0 = "\<lparr>publicState' = s, privateState' = t,
                         publicSnapshot = 0, privateSnapshot = 0,
                         temPublicReceipt = [], temPrivateReceipt = [],
                         publicReceipts' = [], privateReceipts' = [],
                         res = \<lparr>ValidTxs = [], InvalidTxs = []\<rparr>\<rparr>"
            let ?run = "exeWithCPUParallelVeirfy x (secChanHost a) (makeCurrentHeader x block)
                          (BytesToHash x (BlockHash block)) 0 (Txs block)"
            have c: "\<lparr>publicState' = s, privateState' = t,
                      publicSnapshot = 0, privateSnapshot = 0,
                      temPublicReceipt = [], temPrivateReceipt = [],
                      publicReceipts' = publicReceipts a, privateReceipts' = privateReceipts a,
                      res = \<lparr>ValidTxs = [], InvalidTxs = []\<rparr>\<rparr>
                     = withEarlierReceipts (publicReceipts a) (privateReceipts a) ?c0"
              by (simp add: withEarlierReceipts_def)
            show ?thesis
            proof (cases "?run ?c0")
              case (Inl pn')
              then show ?thesis
                by (simp add: OnExecute_def h h' p q pn qn ne ps qs Let_def c
                    exeWithCPUParallelVeirfy_earlier del: exeWithCPUParallelVeirfy.simps)
            next
              case (Inr c')
              then show ?thesis
                by (simp add: OnExecute_def h h' p q pn qn ne ps qs Let_def c
                    exeWithCPUParallelVeirfy_earlier del: exeWithCPUParallelVeirfy.simps)
                   (simp add: withEarlierReceipts_def)
            qed
          qed
        qed
      qed
    qed
  qed
qed

lemma SaveReceipts_lastBlock': "SaveReceipts x a = (sr, a8) \<Longrightarrow> lastBlock a8 = lastBlock a"
  using SaveReceipts_lastBlock [of x a] by simp

lemma OnCommit_accumulators:
  "map_sum id CAppHash
     (fst (OnCommit x height round block (a\<lparr>publicReceipts := P, privateReceipts := Q\<rparr>)))
     = map_sum id CAppHash (fst (OnCommit x height round block a))
   \<and> lastBlock (snd (OnCommit x height round block
                      (a\<lparr>publicReceipts := P, privateReceipts := Q\<rparr>)))
     = lastBlock (snd (OnCommit x height round block a))"
  by (auto simp: OnCommit_def Let_def SaveLastBlock_def dest!: SaveReceipts_lastBlock'
           split: option.splits prod.splits sum.splits)


text \<open>
  Claim C3, as amended. Take two application states on the same confirmed roots, on
  the same store and with the same secure channel setting; they may differ in every
  handle and in the receipts that earlier executions left. Executing the same block
  on both gives the same execute result and adds the same receipts, in the same
  order, behind the receipts each accumulator held. When execution succeeds, both end
  in the same in-progress states, and committing gives the same public root and
  persists the same last-block record (public root and private root). When the
  accumulators held the same receipts at entry, as after every \<open>OnCommit\<close> that returns
  a result, the whole commit result, receipts root included, is the same.
\<close>

theorem block_execution_repeatable:
  assumes host: "secChanHost a = secChanHost b" and db: "stateDb a = stateDb b"
    and lb: "lastBlock a = lastBlock b"
  shows "fst (OnExecute x height round block a) = fst (OnExecute x height round block b)
       \<and> (\<exists>dp dq.
             publicReceipts (snd (OnExecute x height round block a)) = publicReceipts a @ dp
           \<and> publicReceipts (snd (OnExecute x height round block b)) = publicReceipts b @ dp
           \<and> privateReceipts (snd (OnExecute x height round block a)) = privateReceipts a @ dq
           \<and> privateReceipts (snd (OnExecute x height round block b)) = privateReceipts b @ dq)
       \<and> (\<forall>res. fst (OnExecute x height round block a) = Inr res \<longrightarrow>
             currentPublicState (snd (OnExecute x height round block a))
               = currentPublicState (snd (OnExecute x height round block b))
           \<and> currentPrivateState (snd (OnExecute x height round block a))
               = currentPrivateState (snd (OnExecute x height round block b))
           \<and> map_sum id CAppHash
                 (fst (OnCommit x height round block (snd (OnExecute x height round block a))))
               = map_sum id CAppHash
                   (fst (OnCommit x height round block (snd (OnExecute x height round block b))))
           \<and> lastBlock (snd (OnCommit x height round block
                                 (snd (OnExecute x height round block a))))
               = lastBlock (snd (OnCommit x height round block
                                   (snd (OnExecute x height round block b))))
           \<and> (publicReceipts a = publicReceipts b \<and> privateReceipts a = privateReceipts b \<longrightarrow>
                 fst (OnCommit x height round block (snd (OnExecute x height round block a)))
                   = fst (OnCommit x height round block
                            (snd (OnExecute x height round block b)))))"
proof -
  let ?a0 = "a\<lparr>publicReceipts := [], privateReceipts := []\<rparr>"
  let ?b0 = "b\<lparr>publicReceipts := [], privateReceipts := []\<rparr>"
  let ?a' = "snd (OnExecute x height round block a)"
  let ?b' = "snd (OnExecute x height round block b)"
  let ?a0' = "snd (OnExecute x height round block ?a0)"
  let ?b0' = "snd (OnExecute x height round block ?b0)"
  let ?root = "\<lambda>app. map_sum id CAppHash (fst (OnCommit x height round block app))"
  let ?last = "\<lambda>app. lastBlock (snd (OnCommit x height round block app))"
  have same0: "sameBlockInputs ?a0 ?b0"
    using host db lb by (simp add: sameBlockInputs_def)
  note E = OnExecute_same [OF same0, of x height round block]
  note A = OnExecute_accumulators [of x height round block a]
  note B = OnExecute_accumulators [of x height round block b]
  from E have same0': "sameBlockInputs ?a0' ?b0'" by blast
  have fa: "fst (OnExecute x height round block a) = fst (OnExecute x height round block ?a0)"
    using A by blast
  have fb: "fst (OnExecute x height round block b) = fst (OnExecute x height round block ?b0)"
    using B by blast
  have sa: "?a' = ?a0'\<lparr>publicReceipts := publicReceipts a @ publicReceipts ?a0',
                       privateReceipts := privateReceipts a @ privateReceipts ?a0'\<rparr>"
    using A by blast
  have sb: "?b' = ?b0'\<lparr>publicReceipts := publicReceipts b @ publicReceipts ?b0',
                       privateReceipts := privateReceipts b @ privateReceipts ?b0'\<rparr>"
    using B by blast
  have one: "fst (OnExecute x height round block a) = fst (OnExecute x height round block b)"
    using E fa fb by simp
  have pa: "publicReceipts ?a' = publicReceipts a @ publicReceipts ?a0'"
    by (subst sa) simp
  have pb: "publicReceipts ?b' = publicReceipts b @ publicReceipts ?a0'"
    using same0' by (subst sb) (simp add: sameBlockInputs_def)
  have qa: "privateReceipts ?a' = privateReceipts a @ privateReceipts ?a0'"
    by (subst sa) simp
  have qb: "privateReceipts ?b' = privateReceipts b @ privateReceipts ?a0'"
    using same0' by (subst sb) (simp add: sameBlockInputs_def)
  have two: "\<exists>dp dq. publicReceipts ?a' = publicReceipts a @ dp
                   \<and> publicReceipts ?b' = publicReceipts b @ dp
                   \<and> privateReceipts ?a' = privateReceipts a @ dq
                   \<and> privateReceipts ?b' = privateReceipts b @ dq"
    using pa pb qa qb by blast
  have three: "currentPublicState ?a' = currentPublicState ?b'
             \<and> currentPrivateState ?a' = currentPrivateState ?b'
             \<and> ?root ?a' = ?root ?b' \<and> ?last ?a' = ?last ?b'
             \<and> (publicReceipts a = publicReceipts b \<and> privateReceipts a = privateReceipts b \<longrightarrow>
                   fst (OnCommit x height round block ?a')
                     = fst (OnCommit x height round block ?b'))"
    if ok: "fst (OnExecute x height round block a) = Inr res" for res
  proof -
    from ok fa have ok0: "fst (OnExecute x height round block ?a0) = Inr res" by simp
    with E have cur0: "currentPublicState ?a0' = currentPublicState ?b0'"
      "currentPrivateState ?a0' = currentPrivateState ?b0'"
      by blast+
    have ca: "currentPublicState ?a' = currentPublicState ?a0'"
      "currentPrivateState ?a' = currentPrivateState ?a0'"
      by (subst sa, simp)+
    have cb: "currentPublicState ?b' = currentPublicState ?b0'"
      "currentPrivateState ?b' = currentPrivateState ?b0'"
      by (subst sb, simp)+
    note C0 = OnCommit_same [OF same0' cur0, of x height round block]
    have ra: "?root ?a' = ?root ?a0' \<and> ?last ?a' = ?last ?a0'"
      using OnCommit_accumulators [where x = x and height = height and round = round
              and block = block and a = ?a0' and P = "publicReceipts a @ publicReceipts ?a0'"
              and Q = "privateReceipts a @ privateReceipts ?a0'"]
      by (simp only: sa [symmetric])
    have rb: "?root ?b' = ?root ?b0' \<and> ?last ?b' = ?last ?b0'"
      using OnCommit_accumulators [where x = x and height = height and round = round
              and block = block and a = ?b0' and P = "publicReceipts b @ publicReceipts ?b0'"
              and Q = "privateReceipts b @ privateReceipts ?b0'"]
      by (simp only: sb [symmetric])
    have eq: "fst (OnCommit x height round block ?a') = fst (OnCommit x height round block ?b')"
      if acc: "publicReceipts a = publicReceipts b \<and> privateReceipts a = privateReceipts b"
    proof -
      from acc host db lb have same: "sameBlockInputs a b"
        by (simp add: sameBlockInputs_def)
      note F = OnExecute_same [OF same, of x height round block]
      from F ok have "sameBlockInputs ?a' ?b'"
        "currentPublicState ?a' = currentPublicState ?b'"
        "currentPrivateState ?a' = currentPrivateState ?b'"
        by blast+
      from OnCommit_same [OF this, of x height round block] show ?thesis by blast
    qed
    show ?thesis
      using ca cb cur0 ra rb C0 eq by simp
  qed
  show ?thesis
    using one two three by blast
qed


lemma OnExecute_C3:
  "fst (OnExecute x0 1 0 blockC3 app0)
     = Inr \<lparr>ValidTxs = [ [5], [1] ], InvalidTxs = [([255], Err ''execution reverted'')]\<rparr>"
  by (simp add: OnExecute_def getLastAppHash_def app0_def blockC3_def block0_def x0_def
      oneTx_def beginExec_def Snapshot_def execFunc_def runEvm_def ApplyTransaction_def
      endFunc_def RevertToSnapshot_def Sender_def txOf_def Prepare_def SetNonce_def GetNonce_def
      stateAt_def EmptyTrieRoot_def state0_def acct0_def Let_def)


lemma OnCommit_C3:
  "fst (OnCommit x0 1 0 blockC3 (snd (OnExecute x0 1 0 blockC3 app0)))
     = Inr \<lparr>CAppHash = [2, 0], ReceiptsHash = [5, 21, 1, 1, 0, 1]\<rparr>
   \<and> lastBlock (snd (OnCommit x0 1 0 blockC3 (snd (OnExecute x0 1 0 blockC3 app0))))
     = Some \<lparr>LHeight = 1, AppHash = [2, 0], PrivHash = [2, 0]\<rparr>"
  by (simp add: OnCommit_def SaveReceipts_def SaveLastBlock_def batchPut_def batchWrite_def
      rootOf_def
      OnExecute_def getLastAppHash_def app0_def blockC3_def block0_def x0_def
      oneTx_def beginExec_def Snapshot_def execFunc_def runEvm_def ApplyTransaction_def
      endFunc_def RevertToSnapshot_def Sender_def txOf_def Prepare_def SetNonce_def GetNonce_def
      makePublicPayloadHashReceipt_def
      stateAt_def EmptyTrieRoot_def state0_def acct0_def Let_def)

lemmas C3_eval = OnCommit_def SaveReceipts_def SaveLastBlock_def batchPut_def batchWrite_def
      rootOf_def
      OnExecute_def getLastAppHash_def app0_def blockC3_def block0_def x0_def
      oneTx_def beginExec_def Snapshot_def execFunc_def runEvm_def ApplyTransaction_def
      endFunc_def RevertToSnapshot_def Sender_def txOf_def Prepare_def SetNonce_def GetNonce_def
      makePublicPayloadHashReceipt_def
      stateAt_def EmptyTrieRoot_def state0_def acct0_def Let_def

text \<open>
  The amended statement of C3 at a block of three transactions, on a fresh application
  and on one with other handles left from earlier blocks.
\<close>

theorem block_execution_repeatable_witness:
  "secChanHost app0 = secChanHost appStale \<and> stateDb app0 = stateDb appStale
   \<and> lastBlock app0 = lastBlock appStale
   \<and> publicReceipts app0 = publicReceipts appStale
   \<and> privateReceipts app0 = privateReceipts appStale
   \<and> currentPrivateState app0 \<noteq> currentPrivateState appStale
   \<and> fst (OnExecute x0 1 0 blockC3 appStale)
       = Inr \<lparr>ValidTxs = [ [5], [1] ], InvalidTxs = [([255], Err ''execution reverted'')]\<rparr>
   \<and> fst (OnCommit x0 1 0 blockC3 (snd (OnExecute x0 1 0 blockC3 appStale)))
       = Inr \<lparr>CAppHash = [2, 0], ReceiptsHash = [5, 21, 1, 1, 0, 1]\<rparr>
   \<and> lastBlock (snd (OnCommit x0 1 0 blockC3 (snd (OnExecute x0 1 0 blockC3 appStale))))
       = Some \<lparr>LHeight = 1, AppHash = [2, 0], PrivHash = [2, 0]\<rparr>"
proof -
  have h: "secChanHost app0 = secChanHost appStale" "stateDb app0 = stateDb appStale"
    "lastBlock app0 = lastBlock appStale"
    by (simp_all add: appStale_def)
  have acc: "publicReceipts app0 = publicReceipts appStale"
    "privateReceipts app0 = privateReceipts appStale"
    by (simp_all add: appStale_def)
  have d: "currentPrivateState app0 \<noteq> currentPrivateState appStale"
    by (simp add: appStale_def app0_def)
  from block_execution_repeatable [OF h, of x0 1 0 blockC3] OnExecute_C3 OnCommit_C3 h acc d
  show ?thesis
    by simp
qed

text \<open>
  Claim C3 as stated fails: the block and the confirmed roots do not fix the outcome.
  \<open>OnExecute\<close> does not reset the receipt accumulators, so executing the block again
  on the same roots, with no commit between, doubles the receipts under the root that
  the commit returns. On the same block and roots a node with a secure channel returns
  another receipts root than a node without one. On the same block and roots a store
  that lacks the state makes execution fail.
\<close>

theorem block_execution_counterexample:
  "lastBlock appAgain = lastBlock app0 \<and> stateDb appAgain = stateDb app0
   \<and> secChanHost appAgain = secChanHost app0
   \<and> fst (OnCommit x0 1 0 blockC3 (snd (OnExecute x0 1 0 blockC3 app0)))
       = Inr \<lparr>CAppHash = [2, 0], ReceiptsHash = [5, 21, 1, 1, 0, 1]\<rparr>
   \<and> fst (OnCommit x0 1 0 blockC3 (snd (OnExecute x0 1 0 blockC3 appAgain)))
       = Inr \<lparr>CAppHash = [2, 0], ReceiptsHash = [5, 21, 1, 1, 0, 1, 5, 21, 1, 1, 0, 1]\<rparr>
   \<and> lastBlock appSec = lastBlock app0 \<and> stateDb appSec = stateDb app0
   \<and> publicReceipts appSec = publicReceipts app0
   \<and> privateReceipts appSec = privateReceipts app0
   \<and> fst (OnCommit x0 1 0 blockC3 (snd (OnExecute x0 1 0 blockC3 appSec)))
       = Inr \<lparr>CAppHash = [2, 0], ReceiptsHash = [5, 21, 1]\<rparr>
   \<and> lastBlock appStore = lastBlock app0 \<and> secChanHost appStore = secChanHost app0
   \<and> publicReceipts appStore = publicReceipts app0
   \<and> privateReceipts appStore = privateReceipts app0
   \<and> fst (OnExecute xStore 1 0 blockC3 appStore)
       = Inr \<lparr>ValidTxs = [ [5], [1] ], InvalidTxs = [([255], Err ''execution reverted'')]\<rparr>
   \<and> fst (OnExecute xStore 1 0 blockC3 app0)
       = Inl (Err ''create StateDB failed: missing trie node'')"
proof -
  have again: "lastBlock appAgain = lastBlock app0 \<and> stateDb appAgain = stateDb app0
      \<and> secChanHost appAgain = secChanHost app0"
    by (simp add: appAgain_def C3_eval)
  have once: "fst (OnCommit x0 1 0 blockC3 (snd (OnExecute x0 1 0 blockC3 app0)))
       = Inr \<lparr>CAppHash = [2, 0], ReceiptsHash = [5, 21, 1, 1, 0, 1]\<rparr>"
    using OnCommit_C3 by blast
  have twice: "fst (OnCommit x0 1 0 blockC3 (snd (OnExecute x0 1 0 blockC3 appAgain)))
       = Inr \<lparr>CAppHash = [2, 0], ReceiptsHash = [5, 21, 1, 1, 0, 1, 5, 21, 1, 1, 0, 1]\<rparr>"
    by (simp add: appAgain_def C3_eval)
  have sec: "lastBlock appSec = lastBlock app0 \<and> stateDb appSec = stateDb app0
      \<and> publicReceipts appSec = publicReceipts app0
      \<and> privateReceipts appSec = privateReceipts app0
      \<and> fst (OnCommit x0 1 0 blockC3 (snd (OnExecute x0 1 0 blockC3 appSec)))
          = Inr \<lparr>CAppHash = [2, 0], ReceiptsHash = [5, 21, 1]\<rparr>"
    by (simp add: appSec_def C3_eval)
  have store: "lastBlock appStore = lastBlock app0 \<and> secChanHost appStore = secChanHost app0
      \<and> publicReceipts appStore = publicReceipts app0
      \<and> privateReceipts appStore = privateReceipts app0
      \<and> fst (OnExecute xStore 1 0 blockC3 appStore)
          = Inr \<lparr>ValidTxs = [ [5], [1] ], InvalidTxs = [([255], Err ''execution reverted'')]\<rparr>
      \<and> fst (OnExecute xStore 1 0 blockC3 app0)
          = Inl (Err ''create StateDB failed: missing trie node'')"
    by (simp add: appStore_def xStore_def C3_eval)
  from again once twice sec store show ?thesis by blast
qed


end
